theory Spec2Isabelle
  imports Complex_Main
begin

section \<open>Values\<close>

text \<open>
  A float (numpy float64) is the real number it stands for, an infinity, or NaN, which is
  also pandas' marker of a missing cell. Zero carries no sign, so a division by the
  float \<open>-0.0\<close> is written out where the source can reach it. Taking the absolute
  value, changing the sign and comparing are exact on floats and are defined here. The
  operations that round (subtraction, division, the sum and the mean of a column) are
  numpy's and pandas'; they are parameters of the development, introduced with the
  other libraries below.
\<close>

datatype fl = Fin real | PInf | NInf | NaN

fun isna :: "fl \<Rightarrow> bool" where
  "isna NaN = True"
| "isna _ = False"

fun fl_neg :: "fl \<Rightarrow> fl" where
  "fl_neg (Fin x) = Fin (- x)"
| "fl_neg PInf = NInf"
| "fl_neg NInf = PInf"
| "fl_neg NaN = NaN"

fun fl_abs :: "fl \<Rightarrow> fl" where
  "fl_abs (Fin x) = Fin \<bar>x\<bar>"
| "fl_abs PInf = PInf"
| "fl_abs NInf = PInf"
| "fl_abs NaN = NaN"

text \<open>Python's \<open><\<close> on floats: every comparison with NaN is false.\<close>

fun fl_lt :: "fl \<Rightarrow> fl \<Rightarrow> bool" where
  "fl_lt NaN _ = False"
| "fl_lt _ NaN = False"
| "fl_lt (Fin x) (Fin y) = (x < y)"
| "fl_lt NInf NInf = False"
| "fl_lt NInf _ = True"
| "fl_lt _ NInf = False"
| "fl_lt PInf _ = False"
| "fl_lt _ PInf = True"

text \<open>\<open>Series.shift(k)\<close>: row \<open>i\<close> receives the value of row \<open>i - k\<close>, or NaN.\<close>

definition shift :: "fl list \<Rightarrow> int \<Rightarrow> fl list" where
  "shift a k =
     map (\<lambda>i. let j = int i - k in if 0 \<le> j \<and> j < int (length a) then a ! nat j else NaN)
       [0 ..< length a]"

section \<open>Exceptions\<close>

text \<open>
  A raised exception is a value: its Python class and a short form of its message.
  \<open>and_then\<close> sequences two steps and stops at the first exception.
\<close>

datatype py_error =
    TypeError string
  | ValueError string
  | AttributeError string
  | KeyError string
  | IndexError string
  | MergeError string
  | OtherError string

definition and_then :: "'e + 'a \<Rightarrow> ('a \<Rightarrow> 'e + 'b) \<Rightarrow> 'e + 'b" where
  "and_then m f = (case m of Inl e \<Rightarrow> Inl e | Inr x \<Rightarrow> f x)"

section \<open>Dates\<close>

text \<open>
  A \<open>datetime\<close> is compared field by field; \<open>tod\<close> is the time of day in
  microseconds. Time zones are left out.
\<close>

datatype datetime = Datetime (year: int) (month: int) (day: int) (tod: int)

definition dt_lt :: "datetime \<Rightarrow> datetime \<Rightarrow> bool" where
  "dt_lt a b \<longleftrightarrow>
     year a < year b \<or> year a = year b \<and>
       (month a < month b \<or> month a = month b \<and>
         (day a < day b \<or> day a = day b \<and> tod a < tod b))"

definition dt_le :: "datetime \<Rightarrow> datetime \<Rightarrow> bool" where
  "dt_le a b \<longleftrightarrow> a = b \<or> dt_lt a b"

definition is_leap :: "int \<Rightarrow> bool" where
  "is_leap y \<longleftrightarrow> y mod 4 = 0 \<and> (y mod 100 \<noteq> 0 \<or> y mod 400 = 0)"

definition days_in_month :: "int \<Rightarrow> int \<Rightarrow> int" where
  "days_in_month y m =
     (if m = 2 then (if is_leap y then 29 else 28)
      else if m = 4 \<or> m = 6 \<or> m = 9 \<or> m = 11 then 30 else 31)"

text \<open>
  \<open>d + relativedelta(months=+1)\<close>: the next month, the year carried, the day clipped to
  the length of that month.
\<close>

definition plus_one_month :: "datetime \<Rightarrow> datetime" where
  "plus_one_month d =
     (let m = month d + 1;
          y' = (if 12 < m then year d + 1 else year d);
          m' = (if 12 < m then m - 12 else m)
      in Datetime y' m' (min (days_in_month y' m') (day d)) (tod d))"

text \<open>The month count that the source writes out three times.\<close>

definition months_between :: "datetime \<Rightarrow> datetime \<Rightarrow> int" where
  "months_between a b = (year b - year a) * 12 + (month b - month a)"

text \<open>
  \<open>pd.date_range(start, end, freq='MS')\<close>. A start that is not the first day of a
  month is rolled forward to the first day of the next month; otherwise an end that is
  not the first day of a month is rolled back to the first day of its month. Both keep
  their time of day. The labels are then the month starts, at the time of day of
  \<open>start\<close>, from the start up to the end.
\<close>

definition month_index :: "datetime \<Rightarrow> int" where
  "month_index d = year d * 12 + (month d - 1)"

definition month_start :: "int \<Rightarrow> int \<Rightarrow> datetime" where
  "month_start i t = Datetime (i div 12) (i mod 12 + 1) 1 t"

definition date_range :: "datetime \<Rightarrow> datetime \<Rightarrow> datetime list" where
  "date_range start_date end_date =
     (let first = (if day start_date = 1 then month_index start_date
                   else month_index start_date + 1);
          rolled_end = (if day start_date = 1 \<and> day end_date \<noteq> 1
                        then Datetime (year end_date) (month end_date) 1 (tod end_date)
                        else end_date);
          final = (if dt_le (month_start (month_index rolled_end) (tod start_date)) rolled_end
                   then month_index rolled_end else month_index rolled_end - 1)
      in map (\<lambda>i. month_start i (tod start_date)) [first .. final])"

section \<open>pandas tables\<close>

text \<open>
  A \<open>Series\<close> with a datetime index is the list of its (label, value) pairs. A
  \<open>DataFrame\<close> with a datetime index is its column names and its rows, each row a label
  and one cell per column. A dataframe handed to \<open>fit\<close> may have another kind of index.
\<close>

type_synonym series = "(datetime \<times> fl) list"

record frame =
  columns :: "string list"
  rows :: "(datetime \<times> fl list) list"

datatype dataframe =
    DatetimeFrame frame
  | OtherFrame "string list" "(int \<times> fl list) list"

definition index :: "frame \<Rightarrow> datetime list" where
  "index f = map fst (rows f)"

text \<open>The positions at which a label occurs.\<close>

fun positions :: "'a \<Rightarrow> 'a list \<Rightarrow> nat list" where
  "positions x [] = []"
| "positions x (y # ys) = (if y = x then [0] else []) @ map Suc (positions x ys)"

text \<open>
  \<open>df[name]\<close>. With a repeated column label the expression is a table and not a
  series; each use that the source makes of it needs a series (an assignment to one
  column, a table built from it, a model fitted to it), and the model lets the call raise
  here, with the \<open>ValueError\<close> of such an assignment.
\<close>

definition get_column :: "frame \<Rightarrow> string \<Rightarrow> py_error + series" where
  "get_column f c =
     (case positions c (columns f) of
        [] \<Rightarrow> Inl (KeyError c)
      | [i] \<Rightarrow> Inr (map (\<lambda>(t, cells). (t, cells ! i)) (rows f))
      | i # j # _ \<Rightarrow> Inl (ValueError ''a repeated column label selects several columns''))"

text \<open>\<open>df[[name, ...]]\<close>: for each name in turn, every column with that label.\<close>

definition select_columns :: "frame \<Rightarrow> string list \<Rightarrow> py_error + frame" where
  "select_columns f cs =
     (case filter (\<lambda>c. c \<notin> set (columns f)) cs of
        c # _ \<Rightarrow> Inl (KeyError c)
      | [] \<Rightarrow>
          let chosen = concat (map (\<lambda>c. positions c (columns f)) cs)
          in Inr \<lparr>columns = map (\<lambda>i. columns f ! i) chosen,
                   rows = map (\<lambda>(t, cells). (t, map (\<lambda>i. cells ! i) chosen)) (rows f)\<rparr>)"

text \<open>\<open>df.drop(name, axis='columns')\<close>\<close>

definition drop_column :: "frame \<Rightarrow> string \<Rightarrow> py_error + frame" where
  "drop_column f c =
     (if c \<notin> set (columns f) then Inl (KeyError c)
      else Inr \<lparr>columns = filter (\<lambda>n. n \<noteq> c) (columns f),
                rows = map (\<lambda>(t, cells). (t, map snd (filter (\<lambda>(n, v). n \<noteq> c) (zip (columns f) cells))))
                         (rows f)\<rparr>)"

text \<open>
  \<open>df[name] = values\<close>, with one value for each row: a new column at the right, or
  new values for every column of that label.
\<close>

definition set_column :: "frame \<Rightarrow> string \<Rightarrow> fl list \<Rightarrow> frame" where
  "set_column f c vs =
     (if c \<in> set (columns f)
      then \<lparr>columns = columns f,
            rows = map2 (\<lambda>(t, cells) v. (t, map2 (\<lambda>n x. if n = c then v else x) (columns f) cells))
                     (rows f) vs\<rparr>
      else \<lparr>columns = columns f @ [c],
            rows = map2 (\<lambda>(t, cells) v. (t, cells @ [v])) (rows f) vs\<rparr>)"

text \<open>Python slice bounds: a negative bound counts from the end, and both are clipped.\<close>

definition slice_bound :: "int \<Rightarrow> nat \<Rightarrow> nat" where
  "slice_bound i n = (if i < 0 then nat (max 0 (int n + i)) else min (nat i) n)"

text \<open>\<open>df.iloc[:stop, :]\<close> and \<open>df.iloc[start:, :]\<close>\<close>

definition iloc_to :: "frame \<Rightarrow> int \<Rightarrow> frame" where
  "iloc_to f stop = f\<lparr>rows := take (slice_bound stop (length (rows f))) (rows f)\<rparr>"

definition iloc_from :: "frame \<Rightarrow> int \<Rightarrow> frame" where
  "iloc_from f start = f\<lparr>rows := drop (slice_bound start (length (rows f))) (rows f)\<rparr>"

text \<open>
  \<open>pd.DataFrame({n1: series, n2: array})\<close>: the index is that of the series, and the
  array must have its length.
\<close>

definition DataFrame_array :: "string \<Rightarrow> series \<Rightarrow> string \<Rightarrow> fl list \<Rightarrow> py_error + frame" where
  "DataFrame_array n1 s n2 arr =
     (if length arr \<noteq> length s then Inl (ValueError ''array length does not match index length'')
      else Inr \<lparr>columns = [n1, n2], rows = map2 (\<lambda>(t, a) p. (t, [a, p])) s arr\<rparr>)"

text \<open>Sorting labels, for the union of two indexes.\<close>

fun dt_insort :: "datetime \<Rightarrow> datetime list \<Rightarrow> datetime list" where
  "dt_insort x [] = [x]"
| "dt_insort x (y # ys) = (if dt_le x y then x # y # ys else y # dt_insort x ys)"

definition dt_sort :: "datetime list \<Rightarrow> datetime list" where
  "dt_sort xs = foldr dt_insort xs []"

definition value_at :: "series \<Rightarrow> datetime \<Rightarrow> fl" where
  "value_at s t = (case map_of s t of None \<Rightarrow> NaN | Some v \<Rightarrow> v)"

text \<open>
  The union of two indexes: the first one as it is when the second is empty or the same,
  the second when the first is empty, and otherwise every label as many times as the
  index that repeats it most, in ascending order.
\<close>

definition index_union :: "datetime list \<Rightarrow> datetime list \<Rightarrow> datetime list" where
  "index_union a b =
     (if b = [] \<or> a = b then a
      else if a = [] then b
      else dt_sort (concat (map (\<lambda>t. replicate (max (count_list a t) (count_list b t)) t)
                              (remdups (a @ b)))))"

text \<open>
  \<open>series.reindex(labels)\<close> inside the constructor: a series that already has these
  labels is kept; another one is read label by label, a label it does not have giving a
  missing cell, which cannot be done when the series repeats a label.
\<close>

definition aligned :: "series \<Rightarrow> datetime list \<Rightarrow> py_error + fl list" where
  "aligned s labels =
     (if map fst s = labels then Inr (map snd s)
      else if \<not> distinct (map fst s)
      then Inl (ValueError ''cannot reindex on an axis with duplicate labels'')
      else Inr (map (value_at s) labels))"

text \<open>\<open>pd.DataFrame({n1: series1, n2: series2})\<close>: both series aligned on the union of their indexes.\<close>

definition DataFrame_series :: "string \<Rightarrow> series \<Rightarrow> string \<Rightarrow> series \<Rightarrow> py_error + frame" where
  "DataFrame_series n1 s1 n2 s2 =
     (let labels = index_union (map fst s1) (map fst s2)
      in and_then (aligned s1 labels) (\<lambda>c1.
         and_then (aligned s2 labels) (\<lambda>c2.
           Inr \<lparr>columns = [n1, n2],
                rows = map2 (\<lambda>t (a, p). (t, [a, p])) labels (zip c1 c2)\<rparr>)))"

text \<open>\<open>pd.Series(array, index=labels)\<close> and \<open>pd.Series(series, index=labels)\<close>\<close>

definition Series_array :: "fl list \<Rightarrow> datetime list \<Rightarrow> py_error + series" where
  "Series_array arr labels =
     (if length arr \<noteq> length labels
      then Inl (ValueError ''length of values does not match length of index'')
      else Inr (zip labels arr))"

definition Series_reindex :: "series \<Rightarrow> datetime list \<Rightarrow> series" where
  "Series_reindex s labels = map (\<lambda>t. (t, value_at s t)) labels"

text \<open>
  \<open>pd.merge(left, right, left_index=True, right_index=True)\<close>: an inner join on the
  labels in the order of the left table. A column name on both sides gets the suffixes
  \<open>_x\<close> and \<open>_y\<close>, and suffixed names that collide are refused.
\<close>

definition merge :: "frame \<Rightarrow> frame \<Rightarrow> py_error + frame" where
  "merge left right =
     (let lc = map (\<lambda>c. if c \<in> set (columns right) then c @ ''_x'' else c) (columns left);
          rc = map (\<lambda>c. if c \<in> set (columns left) then c @ ''_y'' else c) (columns right)
      in if \<not> distinct (lc @ rc) then Inl (MergeError ''suffixes cause duplicate columns'')
         else Inr \<lparr>columns = lc @ rc,
                   rows = concat (map (\<lambda>(t, cells).
                            map (\<lambda>(u, cells'). (t, cells @ cells'))
                              (filter (\<lambda>(u, cells'). u = t) (rows right))) (rows left))\<rparr>)"

text \<open>\<open>functools.reduce(f, xs)\<close> without an initial value.\<close>

fun foldl_err :: "('a \<Rightarrow> 'b \<Rightarrow> py_error + 'a) \<Rightarrow> 'a \<Rightarrow> 'b list \<Rightarrow> py_error + 'a" where
  "foldl_err f a [] = Inr a"
| "foldl_err f a (x # xs) = and_then (f a x) (\<lambda>a'. foldl_err f a' xs)"

definition reduce :: "('a \<Rightarrow> 'a \<Rightarrow> py_error + 'a) \<Rightarrow> 'a list \<Rightarrow> py_error + 'a" where
  "reduce f xs =
     (case xs of
        [] \<Rightarrow> Inl (TypeError ''reduce of empty iterable with no initial value'')
      | x # rest \<Rightarrow> foldl_err f x rest)"

text \<open>\<open>str.endswith\<close> and \<open>str.lower\<close> (on ASCII letters).\<close>

definition endswith :: "string \<Rightarrow> string \<Rightarrow> bool" where
  "endswith s suffix \<longleftrightarrow> length suffix \<le> length s \<and> drop (length s - length suffix) s = suffix"

definition lower_char :: "char \<Rightarrow> char" where
  "lower_char c =
     (case map_of (zip ''ABCDEFGHIJKLMNOPQRSTUVWXYZ'' ''abcdefghijklmnopqrstuvwxyz'') c of
        None \<Rightarrow> c
      | Some l \<Rightarrow> l)"

definition lower :: "string \<Rightarrow> string" where
  "lower s = map lower_char s"


section \<open>The libraries\<close>

text \<open>
  pmdarima, statsmodels and tbats are outside the repository. A fitted model is the
  collection of the answers it gives to the calls that the source makes, and the three
  fitting entry points are parameters of the development. Each call may raise.

  A position handed to pmdarima comes from \<open>index.get_loc\<close>, which returns an
  integer for a label that occurs once, a slice for a repeated label of an ascending
  index, and a boolean mask for a repeated label of any other index.
\<close>

datatype loc = Position nat | Slice nat nat | Mask "bool list"

record arima_model =
  arima_predict_in_sample :: "frame option \<Rightarrow> loc option \<Rightarrow> loc option \<Rightarrow> py_error + fl list"
  arima_predict :: "int \<Rightarrow> frame option \<Rightarrow> py_error + fl list"

record es_model =
  es_predict_at :: "int \<Rightarrow> int \<Rightarrow> py_error + series"
  es_predict :: "datetime \<Rightarrow> datetime \<Rightarrow> py_error + series"

record bats_model =
  y_hat :: "fl list"
  forecast :: "int \<Rightarrow> py_error + fl list"

datatype model = Arima arima_model | HoltWinters es_model | Bats bats_model

text \<open>
  \<open>auto_arima(y, seasonal, m, seasonal_test, exogenous)\<close>,
  \<open>ExponentialSmoothing(y, seasonal_periods, trend='add', seasonal).fit()\<close> and
  \<open>BATS(seasonal_periods, use_arma_errors, use_box_cox, n_jobs=1).fit(y)\<close>; an argument
  left at its default is \<open>None\<close>.

  The float arithmetic of numpy and pandas is a library as well: the difference and the
  quotient of two floats, \<open>Series.sum()\<close> of a column without missing cells, and
  \<open>Series.mean()\<close> or \<open>DataFrame.mean(axis='columns')\<close> of the cells of a column
  or of a row, which may be missing. How they round, and in which order a sum is taken,
  is theirs.
\<close>

record libraries =
  auto_arima :: "series \<Rightarrow> bool \<Rightarrow> int \<Rightarrow> string option \<Rightarrow> frame option \<Rightarrow> py_error + arima_model"
  ExponentialSmoothing :: "series \<Rightarrow> int option \<Rightarrow> string option \<Rightarrow> py_error + es_model"
  BATS :: "int option list \<Rightarrow> bool option \<Rightarrow> bool option \<Rightarrow> series \<Rightarrow> py_error + bats_model"
  np_sub :: "fl \<Rightarrow> fl \<Rightarrow> fl"
  np_div :: "fl \<Rightarrow> fl \<Rightarrow> fl"
  np_sum :: "fl list \<Rightarrow> fl"
  np_mean :: "fl list \<Rightarrow> fl"

section \<open>error\_metrics.py\<close>

text \<open>
  \<open>mase(data, prediction, actuals, step_size)\<close>, statement by statement. When
  \<open>len(data) < step_size\<close> every shifted error is missing, so
  \<open>avg_shifted_error\<close> is \<open>0.0\<close> divided by a negative count, the float
  \<open>-0.0\<close>; dividing by it gives the quotient by zero with the opposite sign.
\<close>

definition mase :: "libraries \<Rightarrow> frame \<Rightarrow> string \<Rightarrow> string \<Rightarrow> int \<Rightarrow> py_error + fl" where
  "mase lib data0 prediction actuals step_size =
     and_then (select_columns data0 [prediction, actuals]) (\<lambda>d0.
     and_then (get_column d0 actuals) (\<lambda>a0.
     let d1 = set_column d0 ''shifted_actuals'' (shift (map snd a0) step_size) in
     and_then (get_column d1 actuals) (\<lambda>a1.
     and_then (get_column d1 ''shifted_actuals'') (\<lambda>s1.
     let d2 = set_column d1 ''abs_shifted_error''
                (map2 (\<lambda>x y. fl_abs (np_sub lib x y)) (map snd a1) (map snd s1)) in
     and_then (get_column d2 actuals) (\<lambda>a2.
     and_then (get_column d2 prediction) (\<lambda>p2.
     let d3 = set_column d2 ''abs_prediction_error''
                (map2 (\<lambda>x y. fl_abs (np_sub lib x y)) (map snd a2) (map snd p2)) in
     and_then (get_column d3 ''abs_shifted_error'') (\<lambda>e3.
     let n = int (length (rows d3)) - step_size;
         avg_shifted_error =
           np_div lib (np_sum lib (filter (\<lambda>x. \<not> isna x) (map snd e3))) (Fin (real_of_int n)) in
     and_then (get_column d3 ''abs_prediction_error'') (\<lambda>p3.
     let d4 = set_column d3 ''abs_scaled_error''
                (map (\<lambda>x. if n < 0 then fl_neg (np_div lib x avg_shifted_error)
                           else np_div lib x avg_shifted_error) (map snd p3)) in
     and_then (get_column d4 ''abs_scaled_error'') (\<lambda>r4.
       Inr (np_mean lib (map snd r4)))))))))))"

section \<open>validation.py\<close>

definition valid_models :: "string list" where
  "valid_models = [''auto_arima'', ''exponential_smoothing'', ''tbats'', ''ensemble'']"

text \<open>\<open>models\<close> is a tuple or a list by its type here, so the first test cannot fail.\<close>

definition check_models :: "string list \<Rightarrow> py_error + unit" where
  "check_models models =
     (if length models = 0
      then Inl (ValueError ''models argument must contain at least one of valid_models'')
      else if 0 < length (filter (\<lambda>m. m \<notin> set valid_models) models)
      then Inl (ValueError ''The following models are not supported'')
      else if length models \<le> 2 \<and> ''ensemble'' \<in> set models
      then Inl (ValueError ''ensemble needs at least two additional valid models'')
      else Inr ())"

text \<open>
  The test is on the class of the index alone. On success the model hands back the table,
  whose index is now known to hold datetimes.
\<close>

fun check_datetime_index :: "dataframe \<Rightarrow> py_error + frame" where
  "check_datetime_index (DatetimeFrame f) = Inr f"
| "check_datetime_index (OtherFrame cs rs) =
     Inl (TypeError ''The index of your dataframe must be a series of datetimes'')"

section \<open>AutoTS.py\<close>

text \<open>
  A candidate is the list \<open>[error, model, name, predictions]\<close> of the source. The error
  is \<open>None\<close> when the configured metric is not \<open>mase\<close>, and the ensemble has no model
  object.
\<close>

record candidate =
  score :: "fl option"
  cand_model :: "model option"
  cand_name :: string
  test_predictions :: frame

record autots =
  model_names :: "string list"
  error_metric :: string
  is_seasonal :: bool
  seasonal_period :: "int option"
  holdout_period :: int
  verbose :: bool
  data :: "frame option"
  training_data :: "frame option"
  testing_data :: "frame option"
  series_column_name :: "string option"
  exogenous :: "string list option"
  using_exogenous :: bool
  candidate_models :: "candidate list"
  fit_model :: "model option"
  fit_model_type :: "string option"
  best_model_error :: "fl option"
  is_fitted :: bool

text \<open>\<open>__init__\<close>: the names are checked as given, before they are lower-cased.\<close>

definition init :: "string list \<Rightarrow> string \<Rightarrow> int option \<Rightarrow> int \<Rightarrow> bool \<Rightarrow> py_error + autots" where
  "init names metric period holdout verb =
     and_then (check_models names) (\<lambda>_.
       Inr \<lparr>model_names = map lower names,
            error_metric = lower metric,
            is_seasonal = (period \<noteq> None),
            seasonal_period = period,
            holdout_period = holdout,
            verbose = verb,
            data = None,
            training_data = None,
            testing_data = None,
            series_column_name = None,
            exogenous = None,
            using_exogenous = False,
            candidate_models = [],
            fit_model = None,
            fit_model_type = None,
            best_model_error = None,
            is_fitted = False\<rparr>)"

text \<open>
  \<open>_error_metric\<close> calls \<open>mase\<close> with its default step size of 1, and falls off
  its end, returning \<open>None\<close>, for any other metric.
\<close>

definition error_metric_of ::
    "libraries \<Rightarrow> autots \<Rightarrow> frame \<Rightarrow> string \<Rightarrow> string \<Rightarrow> py_error + fl option" where
  "error_metric_of lib s d predictions_column actuals_column =
     (if error_metric s = ''mase''
      then and_then (mase lib d predictions_column actuals_column 1) (\<lambda>e. Inr (Some e))
      else Inr None)"

definition set_input_data :: "autots \<Rightarrow> frame \<Rightarrow> string \<Rightarrow> autots" where
  "set_input_data s d name =
     s\<lparr>data := Some d,
       training_data := Some (iloc_to d (- holdout_period s)),
       testing_data := Some (iloc_from d (- holdout_period s)),
       series_column_name := Some name\<rparr>"

text \<open>Reading a table or a column name that is still \<open>None\<close> raises.\<close>

definition the_frame :: "frame option \<Rightarrow> py_error + frame" where
  "the_frame x =
     (case x of None \<Rightarrow> Inl (TypeError ''NoneType object is not subscriptable'') | Some f \<Rightarrow> Inr f)"

definition series_of :: "autots \<Rightarrow> frame \<Rightarrow> py_error + series" where
  "series_of s f =
     (case series_column_name s of None \<Rightarrow> Inl (KeyError ''None'') | Some c \<Rightarrow> get_column f c)"

definition exog_of :: "autots \<Rightarrow> frame \<Rightarrow> py_error + frame" where
  "exog_of s f =
     (case exogenous s of None \<Rightarrow> Inl (KeyError ''None'') | Some cs \<Rightarrow> select_columns f cs)"


text \<open>
  \<open>_fit_auto_arima\<close>. A \<open>ValueError\<close> of the first search, and no other exception, is
  answered by a second search with the Canova-Hansen test.
\<close>

definition fit_auto_arima :: "libraries \<Rightarrow> autots \<Rightarrow> bool \<Rightarrow> py_error + candidate" where
  "fit_auto_arima lib s use_full_dataset =
     and_then (the_frame (if use_full_dataset then data s else training_data s)) (\<lambda>model_data.
     and_then (if using_exogenous s
               then and_then (exog_of s model_data) (\<lambda>train.
                    and_then (the_frame (testing_data s)) (\<lambda>testing.
                    and_then (exog_of s testing) (\<lambda>test. Inr (Some train, Some test))))
               else Inr (None, None)) (\<lambda>(train_exog, test_exog).
     let auto_arima_seasonal_period = (case seasonal_period s of None \<Rightarrow> 1 | Some p \<Rightarrow> p) in
     and_then (series_of s model_data) (\<lambda>y.
     and_then (case auto_arima lib y (is_seasonal s) auto_arima_seasonal_period None train_exog of
                 Inl (ValueError msg) \<Rightarrow>
                   auto_arima lib y (is_seasonal s) auto_arima_seasonal_period (Some ''ch'') train_exog
               | r \<Rightarrow> r) (\<lambda>model.
     and_then (if use_full_dataset
               then and_then (arima_predict_in_sample model train_exog None None)
                      (DataFrame_array ''actuals'' y ''aa_test_predictions'')
               else and_then (the_frame (testing_data s)) (\<lambda>testing.
                    and_then (series_of s testing) (\<lambda>actuals.
                    and_then (arima_predict model (int (length (rows testing))) test_exog)
                      (DataFrame_array ''actuals'' actuals ''aa_test_predictions'')))) (\<lambda>predictions.
     and_then (error_metric_of lib s predictions ''aa_test_predictions'' ''actuals'') (\<lambda>test_error.
       Inr \<lparr>score = test_error, cand_model = Some (Arima model), cand_name = ''auto_arima'',
            test_predictions = predictions\<rparr>))))))"

text \<open>
  \<open>_fit_exponential_smoothing\<close>. The predictions are asked for by position, from
  \<open>len(training_data)\<close> to \<open>len(training_data) + holdout_period - 2\<close>.
\<close>

definition fit_exponential_smoothing :: "libraries \<Rightarrow> autots \<Rightarrow> bool \<Rightarrow> py_error + candidate" where
  "fit_exponential_smoothing lib s use_full_dataset =
     and_then (the_frame (if use_full_dataset then data s else training_data s)) (\<lambda>model_data.
     and_then (series_of s model_data) (\<lambda>y.
     and_then (ExponentialSmoothing lib y (seasonal_period s)
                 (if seasonal_period s \<noteq> None then Some ''add'' else None)) (\<lambda>model.
     and_then (the_frame (testing_data s)) (\<lambda>testing.
     and_then (series_of s testing) (\<lambda>actuals.
     and_then (the_frame (training_data s)) (\<lambda>training.
     and_then (es_predict_at model (int (length (rows training)))
                 (int (length (rows training)) + holdout_period s - 2)) (\<lambda>predicted.
     and_then (DataFrame_series ''actuals'' actuals ''es_test_predictions'' predicted) (\<lambda>predictions.
     and_then (error_metric_of lib s predictions ''es_test_predictions'' ''actuals'') (\<lambda>error.
       Inr \<lparr>score = error, cand_model = Some (HoltWinters model),
            cand_name = ''exponential_smoothing'', test_predictions = predictions\<rparr>)))))))))"

text \<open>\<open>_fit_tbats\<close>\<close>

definition fit_tbats :: "libraries \<Rightarrow> autots \<Rightarrow> bool \<Rightarrow> bool \<Rightarrow> py_error + candidate" where
  "fit_tbats lib s use_full_dataset use_simple_model =
     and_then (the_frame (if use_full_dataset then data s else training_data s)) (\<lambda>model_data.
     and_then (series_of s model_data) (\<lambda>y.
     and_then (BATS lib [seasonal_period s, Some 2, Some 4]
                 (if use_simple_model then Some False else None)
                 (if use_simple_model then Some False else None) y) (\<lambda>fitted_model.
     and_then (the_frame (testing_data s)) (\<lambda>testing.
     and_then (series_of s testing) (\<lambda>actuals.
     and_then (forecast fitted_model (int (length (rows testing)))) (\<lambda>predicted.
     and_then (DataFrame_array ''actuals'' actuals ''tb_test_predictions'' predicted) (\<lambda>predictions.
     and_then (error_metric_of lib s predictions ''tb_test_predictions'' ''actuals'') (\<lambda>error.
       Inr \<lparr>score = error, cand_model = Some (Bats fitted_model), cand_name = ''tbats'',
            test_predictions = predictions\<rparr>))))))))"

text \<open>
  The table that \<open>_fit_ensemble\<close> builds: the candidates' tables merged from the left,
  and a new column with the mean, row by row, of the columns whose name ends in
  \<open>predictions\<close>.
\<close>

definition ensemble_predictions :: "libraries \<Rightarrow> frame list \<Rightarrow> py_error + frame" where
  "ensemble_predictions lib model_predictions =
     and_then (reduce (\<lambda>left right. and_then (drop_column right ''actuals'') (merge left))
                 model_predictions) (\<lambda>all_predictions.
     and_then (select_columns all_predictions
                 (filter (\<lambda>col. endswith col ''predictions'') (columns all_predictions))) (\<lambda>chosen.
       Inr (set_column all_predictions ''en_test_predictions''
              (map (\<lambda>(t, cells). np_mean lib cells) (rows chosen)))))"

text \<open>
  \<open>_fit_ensemble\<close>, with the candidate list as the call leaves it: \<open>reduce\<close> over a
  single table returns that very table, so the new column is then added to the
  candidate's own table.
\<close>

definition fit_ensemble :: "libraries \<Rightarrow> autots \<Rightarrow> (py_error + candidate) \<times> candidate list" where
  "fit_ensemble lib s =
     (case ensemble_predictions lib (map test_predictions (candidate_models s)) of
        Inl e \<Rightarrow> (Inl e, candidate_models s)
      | Inr all_predictions \<Rightarrow>
          (and_then (error_metric_of lib s all_predictions ''en_test_predictions'' ''actuals'') (\<lambda>error.
           and_then (select_columns all_predictions [''actuals'', ''en_test_predictions'']) (\<lambda>table.
             Inr \<lparr>score = error, cand_model = None, cand_name = ''ensemble'',
                  test_predictions = table\<rparr>)),
           case candidate_models s of
             [c] \<Rightarrow> [c\<lparr>test_predictions := all_predictions\<rparr>]
           | cs \<Rightarrow> cs))"

text \<open>
  \<open>sorted(candidates, key=...)\<close>, as CPython's list sort works on a list of fewer
  than 64 items. A key that is \<open>None\<close> cannot be compared, which any sort of two or
  more items finds out. Otherwise the run at the front of the list is counted: the items
  as long as none is less than the one before it, or, when the second item is less than
  the first, as long as each is less than the one before it, and such a descending run is
  reversed. Every later item is then inserted into the sorted front at the place that a
  binary search with \<open><\<close> gives. On keys without NaN the result is the ascending
  stable order, also for longer lists, which CPython sorts by merging such runs; the
  place of an item with a NaN key follows from the comparisons made.
\<close>

definition key_lt :: "fl option \<Rightarrow> fl option \<Rightarrow> bool" where
  "key_lt a b = (case (a, b) of (Some x, Some y) \<Rightarrow> fl_lt x y | _ \<Rightarrow> False)"

fun ascending_run :: "('a \<Rightarrow> fl option) \<Rightarrow> 'a \<Rightarrow> 'a list \<Rightarrow> nat" where
  "ascending_run key prev [] = 0"
| "ascending_run key prev (x # xs) =
     (if key_lt (key x) (key prev) then 0 else Suc (ascending_run key x xs))"

fun descending_run :: "('a \<Rightarrow> fl option) \<Rightarrow> 'a \<Rightarrow> 'a list \<Rightarrow> nat" where
  "descending_run key prev [] = 0"
| "descending_run key prev (x # xs) =
     (if key_lt (key x) (key prev) then Suc (descending_run key x xs) else 0)"

text \<open>\<open>count_run\<close>: the length of the run and whether it is descending.\<close>

definition count_run :: "('a \<Rightarrow> fl option) \<Rightarrow> 'a list \<Rightarrow> nat \<times> bool" where
  "count_run key xs =
     (case xs of
        [] \<Rightarrow> (0, False)
      | [x] \<Rightarrow> (1, False)
      | x # y # ys \<Rightarrow>
          if key_lt (key y) (key x) then (2 + descending_run key y ys, True)
          else (2 + ascending_run key y ys, False))"

text \<open>The search of \<open>binarysort\<close> for the place of \<open>pivot\<close> among \<open>xs[l:r]\<close>.\<close>

function bisect :: "('a \<Rightarrow> fl option) \<Rightarrow> 'a \<Rightarrow> 'a list \<Rightarrow> nat \<Rightarrow> nat \<Rightarrow> nat" where
  "bisect key pivot xs l r =
     (if l < r
      then (let p = l + (r - l) div 2
            in if key_lt (key pivot) (key (xs ! p)) then bisect key pivot xs l p
               else bisect key pivot xs (p + 1) r)
      else l)"
  by pat_completeness auto

termination
  by (relation "measure (\<lambda>(key, pivot, xs, l, r). r - l)") auto

definition binary_insert :: "('a \<Rightarrow> fl option) \<Rightarrow> 'a list \<Rightarrow> 'a \<Rightarrow> 'a list" where
  "binary_insert key xs pivot =
     (let l = bisect key pivot xs 0 (length xs) in take l xs @ pivot # drop l xs)"

definition py_sorted :: "('a \<Rightarrow> fl option) \<Rightarrow> 'a list \<Rightarrow> py_error + 'a list" where
  "py_sorted key xs =
     (if 2 \<le> length xs \<and> (\<exists>x \<in> set xs. key x = None)
      then Inl (TypeError ''< not supported between instances of NoneType'')
      else Inr (case count_run key xs of
                  (n, descending) \<Rightarrow>
                    foldl (binary_insert key)
                      (if descending then rev (take n xs) else take n xs) (drop n xs)))"

text \<open>
  \<open>fit\<close>. An exception leaves the object as it was when it was raised, so the failing
  result carries that state. Printing under \<open>verbose\<close> changes nothing, and the
  candidate list is a list from \<open>__init__\<close> on, never \<open>None\<close>, which leaves the
  guard before \<open>_fit_ensemble\<close> without a case.
\<close>

datatype exog_arg = ExogNone | ExogStr string | ExogList "string list"

definition append_candidate ::
    "autots \<Rightarrow> py_error + candidate \<Rightarrow> py_error \<times> autots + autots" where
  "append_candidate s r =
     (case r of
        Inl e \<Rightarrow> Inl (e, s)
      | Inr c \<Rightarrow> Inr (s\<lparr>candidate_models := candidate_models s @ [c]\<rparr>))"

definition fit ::
    "libraries \<Rightarrow> autots \<Rightarrow> dataframe \<Rightarrow> string \<Rightarrow> exog_arg \<Rightarrow> py_error \<times> autots + autots" where
  "fit lib s0 df name exog =
     (case check_datetime_index df of
        Inl e \<Rightarrow> Inl (e, s0)
      | Inr d \<Rightarrow>
     let s1 = set_input_data s0 d name;
         exog' = (case exog of ExogStr c \<Rightarrow> ExogList [] | _ \<Rightarrow> exog);
         s2 = (case exog' of
                 ExogList cs \<Rightarrow> s1\<lparr>using_exogenous := True, exogenous := Some cs\<rparr>
               | _ \<Rightarrow> s1)
     in and_then (if ''auto_arima'' \<in> set (model_names s2)
                  then append_candidate s2 (fit_auto_arima lib s2 True) else Inr s2) (\<lambda>s3.
        and_then (if ''exponential_smoothing'' \<in> set (model_names s3)
                  then append_candidate s3 (fit_exponential_smoothing lib s3 True) else Inr s3) (\<lambda>s4.
        and_then (if ''tbats'' \<in> set (model_names s4)
                  then append_candidate s4 (fit_tbats lib s4 True True) else Inr s4) (\<lambda>s5.
        and_then (if ''ensemble'' \<in> set (model_names s5)
                  then (case fit_ensemble lib s5 of (r, cs) \<Rightarrow>
                          append_candidate (s5\<lparr>candidate_models := cs\<rparr>) r)
                  else Inr s5) (\<lambda>s6.
        (case py_sorted score (candidate_models s6) of
           Inl e \<Rightarrow> Inl (e, s6)
         | Inr [] \<Rightarrow> Inl (IndexError ''list index out of range'', s6\<lparr>candidate_models := []\<rparr>)
         | Inr (best # others) \<Rightarrow>
             Inr (s6\<lparr>candidate_models := best # others,
                     best_model_error := score best,
                     fit_model := cand_model best,
                     fit_model_type := Some (cand_name best),
                     is_fitted := True\<rparr>)))))))"


subsection \<open>Prediction\<close>

definition data_index :: "autots \<Rightarrow> py_error + datetime list" where
  "data_index s =
     (case data s of
        None \<Rightarrow> Inl (AttributeError ''NoneType object has no attribute index'')
      | Some d \<Rightarrow> Inr (index d))"

text \<open>\<open>index[0]\<close>, \<open>index[-1]\<close> and \<open>index.get_loc(label)\<close>\<close>

definition first_label :: "datetime list \<Rightarrow> py_error + datetime" where
  "first_label labels =
     (case labels of [] \<Rightarrow> Inl (IndexError ''index 0 is out of bounds'') | t # ts \<Rightarrow> Inr t)"

definition last_label :: "datetime list \<Rightarrow> py_error + datetime" where
  "last_label labels =
     (case labels of [] \<Rightarrow> Inl (IndexError ''index -1 is out of bounds'') | t # ts \<Rightarrow> Inr (last labels))"

definition get_loc :: "datetime list \<Rightarrow> datetime \<Rightarrow> py_error + loc" where
  "get_loc labels t =
     (case positions t labels of
        [] \<Rightarrow> Inl (KeyError ''label not in index'')
      | [i] \<Rightarrow> Inr (Position i)
      | i # j # ps \<Rightarrow>
          if sorted_wrt dt_le labels then Inr (Slice i (Suc (last (j # ps))))
          else Inr (Mask (map (\<lambda>u. u = t) labels)))"

text \<open>\<open>series.loc[a:b]\<close> and \<open>series.loc[a:]\<close> on an ascending index.\<close>

definition loc_between :: "series \<Rightarrow> datetime \<Rightarrow> datetime \<Rightarrow> series" where
  "loc_between s a b = filter (\<lambda>(t, v). dt_le a t \<and> dt_le t b) s"

definition loc_from :: "series \<Rightarrow> datetime \<Rightarrow> series" where
  "loc_from s a = filter (\<lambda>(t, v). dt_le a t) s"

text \<open>
  The three-way test that \<open>_predict_auto_arima\<close> and \<open>_predict_tbats\<close> share. The first
  test reads the last label of the in-sample predictions, the second the last label of
  the data; for \<open>auto_arima\<close> the two are the same.
\<close>

datatype range_class = FullyInSample | Straddling | FullyOutOfSample

definition classify :: "datetime \<Rightarrow> datetime \<Rightarrow> datetime \<Rightarrow> datetime \<Rightarrow> range_class" where
  "classify start_date end_date in_sample_last data_last =
     (if dt_lt start_date in_sample_last \<and> dt_le end_date in_sample_last then FullyInSample
      else if dt_lt start_date data_last \<and> dt_lt data_last end_date then Straddling
      else FullyOutOfSample)"

definition the_arima :: "autots \<Rightarrow> py_error + arima_model" where
  "the_arima s =
     (case fit_model s of
        Some (Arima m) \<Rightarrow> Inr m
      | _ \<Rightarrow> Inl (AttributeError ''fit_model has no attribute predict_in_sample''))"

definition the_es :: "autots \<Rightarrow> py_error + es_model" where
  "the_es s =
     (case fit_model s of
        Some (HoltWinters m) \<Rightarrow> Inr m
      | _ \<Rightarrow> Inl (AttributeError ''fit_model has no attribute predict''))"

definition the_bats :: "autots \<Rightarrow> py_error + bats_model" where
  "the_bats s =
     (case fit_model s of
        Some (Bats m) \<Rightarrow> Inr m
      | _ \<Rightarrow> Inl (AttributeError ''fit_model has no attribute y_hat''))"

text \<open>\<open>_predict_auto_arima\<close>\<close>

definition predict_auto_arima ::
    "autots \<Rightarrow> datetime \<Rightarrow> datetime \<Rightarrow> datetime \<Rightarrow> frame option \<Rightarrow> py_error + series" where
  "predict_auto_arima s start_date end_date last_data_date exog =
     and_then (data_index s) (\<lambda>labels.
     and_then (last_label labels) (\<lambda>data_last.
     and_then
       (case classify start_date end_date data_last data_last of
          FullyInSample \<Rightarrow>
            and_then (the_arima s) (\<lambda>m.
            and_then (get_loc labels start_date) (\<lambda>i.
            and_then (get_loc labels end_date) (\<lambda>j.
              arima_predict_in_sample m exog (Some i) (Some j))))
        | Straddling \<Rightarrow>
            and_then (the_arima s) (\<lambda>m.
            and_then (get_loc labels start_date) (\<lambda>i.
            and_then (arima_predict_in_sample m None (Some i) None) (\<lambda>in_sample_preds.
            and_then (arima_predict m (months_between last_data_date end_date) None)
              (\<lambda>out_of_sample_preds. Inr (in_sample_preds @ out_of_sample_preds)))))
        | FullyOutOfSample \<Rightarrow>
            and_then (the_arima s) (\<lambda>m.
              arima_predict m (months_between start_date end_date + 1) exog))
       (\<lambda>preds. Series_array preds (date_range start_date end_date))))"

text \<open>\<open>_predict_exponential_smoothing\<close>: the range goes to the library as it is.\<close>

definition predict_exponential_smoothing ::
    "autots \<Rightarrow> datetime \<Rightarrow> datetime \<Rightarrow> py_error + series" where
  "predict_exponential_smoothing s start_date end_date =
     and_then (the_es s) (\<lambda>m. es_predict m start_date end_date)"

text \<open>\<open>_predict_tbats\<close>\<close>

definition predict_tbats ::
    "autots \<Rightarrow> datetime \<Rightarrow> datetime \<Rightarrow> datetime \<Rightarrow> py_error + series" where
  "predict_tbats s start_date end_date last_data_date =
     and_then (the_bats s) (\<lambda>m.
     and_then (data_index s) (\<lambda>labels.
     and_then (first_label labels) (\<lambda>data_first.
     and_then (last_label labels) (\<lambda>data_last.
     and_then (Series_array (y_hat m) (date_range data_first data_last)) (\<lambda>in_sample_preds.
     and_then (last_label (map fst in_sample_preds)) (\<lambda>in_sample_last.
       (case classify start_date end_date in_sample_last data_last of
          FullyInSample \<Rightarrow>
            Inr (Series_reindex (loc_between in_sample_preds start_date end_date)
                   (date_range start_date end_date))
        | Straddling \<Rightarrow>
            and_then (forecast m (months_between last_data_date end_date)) (\<lambda>out_of_sample_portion.
              Series_array (map snd (loc_from in_sample_preds start_date) @ out_of_sample_portion)
                (date_range start_date end_date))
        | FullyOutOfSample \<Rightarrow>
            and_then (forecast m (months_between start_date end_date + 1)) (\<lambda>preds.
              Series_array preds (date_range start_date end_date)))))))))"

text \<open>
  \<open>_predict_ensemble\<close> sets \<open>fit_model\<close> to each constituent in turn (the last candidate
  of that name) and resets it at the end, so the state is part of the result.
\<close>

definition select_model :: "autots \<Rightarrow> string \<Rightarrow> autots" where
  "select_model s n =
     s\<lparr>fit_model := foldl (\<lambda>m c. if cand_name c = n then cand_model c else m)
                      (fit_model s) (candidate_models s)\<rparr>"

definition named :: "string \<Rightarrow> series \<Rightarrow> frame" where
  "named n s = \<lparr>columns = [n], rows = map (\<lambda>(t, v). (t, [v])) s\<rparr>"

definition ensemble_mean :: "libraries \<Rightarrow> frame list \<Rightarrow> py_error + fl list" where
  "ensemble_mean lib predictions =
     (case predictions of
        [p] \<Rightarrow> Inl (ValueError ''No axis named columns for object type Series'')
      | _ \<Rightarrow> and_then (reduce merge predictions) (\<lambda>all_predictions.
               Inr (map (\<lambda>(t, cells). np_mean lib cells) (rows all_predictions))))"

definition predict_ensemble ::
    "libraries \<Rightarrow> autots \<Rightarrow> datetime \<Rightarrow> datetime \<Rightarrow> datetime \<Rightarrow> frame option
       \<Rightarrow> (py_error + series) \<times> autots" where
  "predict_ensemble lib s start_date end_date last_data_date exog =
     (let s1 = (if ''auto_arima'' \<in> set (model_names s) then select_model s ''auto_arima'' else s)
      in case (if ''auto_arima'' \<in> set (model_names s)
               then and_then (predict_auto_arima s1 start_date end_date last_data_date exog)
                      (\<lambda>preds. Inr [named ''auto_arima_predictions'' preds])
               else Inr []) of
           Inl e \<Rightarrow> (Inl e, s1)
         | Inr ps1 \<Rightarrow>
      let s2 = (if ''exponential_smoothing'' \<in> set (model_names s1)
                then select_model s1 ''exponential_smoothing'' else s1)
      in case (if ''exponential_smoothing'' \<in> set (model_names s1)
               then and_then (predict_exponential_smoothing s2 start_date end_date)
                      (\<lambda>preds. Inr (ps1 @ [named ''exponential_smoothing_predictions'' preds]))
               else Inr ps1) of
           Inl e \<Rightarrow> (Inl e, s2)
         | Inr ps2 \<Rightarrow>
      let s3 = (if ''tbats'' \<in> set (model_names s2) then select_model s2 ''tbats'' else s2)
      in case (if ''tbats'' \<in> set (model_names s2)
               then and_then (predict_tbats s3 start_date end_date last_data_date)
                      (\<lambda>preds. Inr (ps2 @ [named ''tbats_predictions'' preds]))
               else Inr ps2) of
           Inl e \<Rightarrow> (Inl e, s3)
         | Inr ps3 \<Rightarrow>
      (case ensemble_mean lib ps3 of
         Inl e \<Rightarrow> (Inl e, s3)
       | Inr means \<Rightarrow>
           (Series_array means (date_range start_date end_date),
            s3\<lparr>fit_model := None, fit_model_type := Some ''ensemble''\<rparr>)))"

text \<open>
  The checks that open \<open>predict\<close>, in the order of the source; both dates are datetimes
  by their type. On success they yield \<open>last_data_date\<close>.
\<close>

definition predict_checks ::
    "autots \<Rightarrow> datetime \<Rightarrow> datetime \<Rightarrow> frame option \<Rightarrow> py_error + datetime" where
  "predict_checks s start_date end_date exog =
     (if \<not> is_fitted s
      then Inl (AttributeError ''Model must be fitted to be able to make predictions'')
      else if dt_lt end_date start_date
      then Inl (ValueError ''end_date must come after start_date'')
      else and_then (data_index s) (\<lambda>labels.
           and_then (last_label labels) (\<lambda>last_data_date.
             if dt_lt (plus_one_month last_data_date) start_date
             then Inl (ValueError ''start_date must be no more than 1 month past the last date'')
             else and_then (first_label labels) (\<lambda>data_first.
               if dt_lt start_date data_first
               then Inl (ValueError ''start_date must be later than the earliest date'')
               else if using_exogenous s \<and> dt_lt last_data_date end_date \<and> exog = None
               then Inl (ValueError ''Exogenous regressors must be provided as a dataframe'')
               else Inr last_data_date))))"

text \<open>\<open>predict\<close>; with none of the four model types it falls off its end and returns \<open>None\<close>.\<close>

definition predict ::
    "libraries \<Rightarrow> autots \<Rightarrow> datetime \<Rightarrow> datetime \<Rightarrow> frame option \<Rightarrow> (py_error + series option) \<times> autots" where
  "predict lib s start_date end_date exog =
     (case predict_checks s start_date end_date exog of
        Inl e \<Rightarrow> (Inl e, s)
      | Inr last_data_date \<Rightarrow>
          if fit_model_type s = Some ''auto_arima''
          then (and_then (predict_auto_arima s start_date end_date last_data_date exog)
                  (\<lambda>r. Inr (Some r)), s)
          else if fit_model_type s = Some ''exponential_smoothing''
          then (and_then (predict_exponential_smoothing s start_date end_date)
                  (\<lambda>r. Inr (Some r)), s)
          else if fit_model_type s = Some ''tbats''
          then (and_then (predict_tbats s start_date end_date last_data_date)
                  (\<lambda>r. Inr (Some r)), s)
          else if fit_model_type s = Some ''ensemble''
          then (case predict_ensemble lib s start_date end_date last_data_date exog of
                  (r, s') \<Rightarrow> (and_then r (\<lambda>r. Inr (Some r)), s'))
          else (Inr None, s))"

section \<open>Notions used in the statements\<close>

text \<open>A call raises when its result is an exception.\<close>

definition raises :: "'e + 'a \<Rightarrow> bool" where
  "raises r = (case r of Inl e \<Rightarrow> True | Inr x \<Rightarrow> False)"

text \<open>The one metric that \<open>_error_metric\<close> implements.\<close>

definition supported_metric :: "string \<Rightarrow> bool" where
  "supported_metric m \<longleftrightarrow> m = ''mase''"

text \<open>
  The state in which \<open>fit\<close> starts to build candidates: the input data set and split,
  and the exogenous columns recorded, a single column name having become the empty list.
\<close>

definition prepared :: "autots \<Rightarrow> frame \<Rightarrow> string \<Rightarrow> exog_arg \<Rightarrow> autots" where
  "prepared s0 d name exog =
     (case exog of
        ExogNone \<Rightarrow> set_input_data s0 d name
      | ExogStr c \<Rightarrow> (set_input_data s0 d name)\<lparr>using_exogenous := True, exogenous := Some []\<rparr>
      | ExogList cs \<Rightarrow> (set_input_data s0 d name)\<lparr>using_exogenous := True, exogenous := Some cs\<rparr>)"

text \<open>
  For the examples, arithmetic without rounding: the operations on floats that denote
  their exact results.
\<close>

fun fl_add :: "fl \<Rightarrow> fl \<Rightarrow> fl" where
  "fl_add NaN _ = NaN"
| "fl_add _ NaN = NaN"
| "fl_add (Fin x) (Fin y) = Fin (x + y)"
| "fl_add PInf NInf = NaN"
| "fl_add NInf PInf = NaN"
| "fl_add PInf _ = PInf"
| "fl_add _ PInf = PInf"
| "fl_add NInf _ = NInf"
| "fl_add _ NInf = NInf"

definition fl_sub :: "fl \<Rightarrow> fl \<Rightarrow> fl" where
  "fl_sub a b = fl_add a (fl_neg b)"

fun fl_div :: "fl \<Rightarrow> fl \<Rightarrow> fl" where
  "fl_div NaN _ = NaN"
| "fl_div _ NaN = NaN"
| "fl_div (Fin x) (Fin y) =
     (if y = 0 then (if x = 0 then NaN else if 0 < x then PInf else NInf) else Fin (x / y))"
| "fl_div (Fin x) _ = Fin 0"
| "fl_div PInf (Fin y) = (if 0 \<le> y then PInf else NInf)"
| "fl_div NInf (Fin y) = (if 0 \<le> y then NInf else PInf)"
| "fl_div _ _ = NaN"

text \<open>The sum of no values is \<open>0.0\<close>; a mean skips missing cells and is NaN without any cell.\<close>

definition fl_sum :: "fl list \<Rightarrow> fl" where
  "fl_sum xs = foldr fl_add xs (Fin 0)"

definition mean_skipna :: "fl list \<Rightarrow> fl" where
  "mean_skipna xs =
     (let vs = filter (\<lambda>x. \<not> isna x) xs
      in if vs = [] then NaN else fl_div (fl_sum vs) (Fin (real (length vs))))"

text \<open>
  For the examples: a stand-in for the libraries, whose forecasts are one constant for
  each kind of model and whose arithmetic is the exact one, and a series of four months.
  The stand-in for pmdarima takes integer positions only.
\<close>

definition flat_arima :: "real \<Rightarrow> series \<Rightarrow> arima_model" where
  "flat_arima c y =
     \<lparr>arima_predict_in_sample = (\<lambda>exog start_pos end_pos.
        and_then (case start_pos of
                    None \<Rightarrow> Inr 0
                  | Some (Position i) \<Rightarrow> Inr i
                  | Some _ \<Rightarrow> Inl (TypeError ''start must be an integer'')) (\<lambda>i.
        and_then (case end_pos of
                    None \<Rightarrow> Inr (length y)
                  | Some (Position j) \<Rightarrow> Inr (j + 1)
                  | Some _ \<Rightarrow> Inl (TypeError ''end must be an integer'')) (\<lambda>j.
          Inr (replicate (j - i) (Fin c))))),
      arima_predict = (\<lambda>n exog. Inr (replicate (nat n) (Fin c)))\<rparr>"

definition flat_es :: "real \<Rightarrow> series \<Rightarrow> es_model" where
  "flat_es c y =
     \<lparr>es_predict_at = (\<lambda>i j.
        Inr (map (\<lambda>(t, v). (t, Fin c)) (take (nat (j + 1) - nat i) (drop (nat i) y)))),
      es_predict = (\<lambda>a b. Inr (map (\<lambda>t. (t, Fin c)) (date_range a b)))\<rparr>"

definition flat_bats :: "real \<Rightarrow> series \<Rightarrow> bats_model" where
  "flat_bats c y =
     \<lparr>y_hat = replicate (length y) (Fin c),
      forecast = (\<lambda>n. Inr (replicate (nat n) (Fin c)))\<rparr>"

definition flat_lib :: "real \<Rightarrow> real \<Rightarrow> real \<Rightarrow> libraries" where
  "flat_lib a e b =
     \<lparr>auto_arima = (\<lambda>y seasonal m test exog. Inr (flat_arima a y)),
      ExponentialSmoothing = (\<lambda>y periods seasonal. Inr (flat_es e y)),
      BATS = (\<lambda>periods arma box_cox y. Inr (flat_bats b y)),
      np_sub = fl_sub, np_div = fl_div, np_sum = fl_sum, np_mean = mean_skipna\<rparr>"

definition four_months :: frame where
  "four_months =
     \<lparr>columns = [''y''],
      rows = [(Datetime 2020 1 1 0, [Fin 1]), (Datetime 2020 2 1 0, [Fin 2]),
              (Datetime 2020 3 1 0, [Fin 4]), (Datetime 2020 4 1 0, [Fin 7])]\<rparr>"

text \<open>A new object, as \<open>__init__\<close> leaves it after its check, with a holdout of two.\<close>

definition fresh :: "string list \<Rightarrow> string \<Rightarrow> autots" where
  "fresh names metric =
     \<lparr>model_names = names, error_metric = metric, is_seasonal = False,
      seasonal_period = None, holdout_period = 2, verbose = False, data = None,
      training_data = None, testing_data = None, series_column_name = None,
      exogenous = None, using_exogenous = False, candidate_models = [], fit_model = None,
      fit_model_type = None, best_model_error = None, is_fitted = False\<rparr>"

text \<open>The same four months out of order, and four later months.\<close>

definition shuffled_months :: frame where
  "shuffled_months =
     \<lparr>columns = [''y''],
      rows = [(Datetime 2020 2 1 0, [Fin 2]), (Datetime 2020 1 1 0, [Fin 1]),
              (Datetime 2020 3 1 0, [Fin 4]), (Datetime 2020 4 1 0, [Fin 7])]\<rparr>"

definition later_months :: frame where
  "later_months =
     \<lparr>columns = [''y''],
      rows = [(Datetime 2021 1 1 0, [Fin 10]), (Datetime 2021 2 1 0, [Fin 20]),
              (Datetime 2021 3 1 0, [Fin 40]), (Datetime 2021 4 1 0, [Fin 70])]\<rparr>"

text \<open>The index requirement in the words of the specification.\<close>

definition strictly_increasing :: "datetime list \<Rightarrow> bool" where
  "strictly_increasing labels \<longleftrightarrow> sorted_wrt dt_lt labels"

text \<open>
  A fitted object that holds the four months and has declared exogenous regressors, and
  a table of exogenous values.
\<close>

definition observed :: autots where
  "observed =
     (fresh [''tbats''] ''mase'')
       \<lparr>data := Some four_months, exogenous := Some [''x''], using_exogenous := True,
        is_fitted := True\<rparr>"

definition future_x :: frame where
  "future_x = \<lparr>columns = [''x''], rows = [(Datetime 2020 5 1 0, [Fin 0])]\<rparr>"

text \<open>
  Python's \<open><=\<close> on two scores. A score can be compared when it is a number: not
  \<open>None\<close> and not NaN.
\<close>

definition comparable :: "fl option \<Rightarrow> bool" where
  "comparable k = (case k of None \<Rightarrow> False | Some x \<Rightarrow> \<not> isna x)"

definition score_le :: "fl option \<Rightarrow> fl option \<Rightarrow> bool" where
  "score_le a b \<longleftrightarrow> comparable a \<and> comparable b \<and> (key_lt a b \<or> a = b)"

text \<open>A month start: the first day of a month of the calendar.\<close>

definition is_month_start :: "datetime \<Rightarrow> bool" where
  "is_month_start d \<longleftrightarrow> day d = 1 \<and> 1 \<le> month d \<and> month d \<le> 12"

text \<open>An object fitted on the four months whose selected model is a \<open>tbats\<close> model.\<close>

definition six :: bats_model where
  "six = \<lparr>y_hat = replicate 4 (Fin 6), forecast = (\<lambda>n. Inr (replicate (nat n) (Fin 6)))\<rparr>"

definition fitted_bats :: autots where
  "fitted_bats =
     (fresh [''tbats''] ''mase'')
       \<lparr>data := Some four_months, fit_model := Some (Bats six),
        fit_model_type := Some ''tbats'', is_fitted := True\<rparr>"

text \<open>
  The scale factor in the words of the specification: the naive lag-\<open>k\<close> errors
  \<open>|actual[i] - actual[i-k]|\<close> for \<open>i \<ge> k\<close>, summed and divided by \<open>N - k\<close>,
  and the scaled error of row \<open>i\<close>, each in the arithmetic of the libraries. The
  columns that \<open>mase\<close> adds to its copy of the table have the names below.
\<close>

definition scaleFactor :: "libraries \<Rightarrow> real list \<Rightarrow> nat \<Rightarrow> fl" where
  "scaleFactor lib actual k =
     np_div lib
       (np_sum lib (map (\<lambda>i. fl_abs (np_sub lib (Fin (actual ! i)) (Fin (actual ! (i - k)))))
                      [k ..< length actual]))
       (Fin (real (length actual - k)))"

definition scaledError :: "libraries \<Rightarrow> real list \<Rightarrow> real list \<Rightarrow> nat \<Rightarrow> nat \<Rightarrow> fl" where
  "scaledError lib actual predicted k i =
     np_div lib (fl_abs (np_sub lib (Fin (actual ! i)) (Fin (predicted ! i))))
       (scaleFactor lib actual k)"

definition working_columns :: "string list" where
  "working_columns =
     [''shifted_actuals'', ''abs_shifted_error'', ''abs_prediction_error'', ''abs_scaled_error'']"

text \<open>
  The table with the given labels and column names, the cells given column by column.
\<close>

definition table_of :: "datetime list \<Rightarrow> string list \<Rightarrow> fl list list \<Rightarrow> frame" where
  "table_of ts cols vals =
     \<lparr>columns = cols, rows = map (\<lambda>m. (ts ! m, map (\<lambda>v. v ! m) vals)) [0 ..< length ts]\<rparr>"

section \<open>Basic facts\<close>

lemma and_then_Inr [simp]: "and_then (Inr x) f = f x"
  by (simp add: and_then_def)

lemma and_then_Inl [simp]: "and_then (Inl e) f = Inl e"
  by (simp add: and_then_def)

lemma and_then_InrE:
  assumes "and_then m f = Inr y"
  obtains x where "m = Inr x" and "f x = Inr y"
  using assms by (cases m) (simp_all add: and_then_def)

lemma and_then_cong:
  "m = m' \<Longrightarrow> (\<And>x. m' = Inr x \<Longrightarrow> f x = f' x) \<Longrightarrow> and_then m f = and_then m' f'"
  by (cases m') (simp_all add: and_then_def)

text \<open>The three fitting functions do not read the candidate list.\<close>

lemma fit_auto_arima_candidates [simp]:
  "fit_auto_arima lib (s\<lparr>candidate_models := cs\<rparr>) b = fit_auto_arima lib s b"
  by (simp add: fit_auto_arima_def exog_of_def series_of_def error_metric_of_def
      cong: and_then_cong sum.case_cong py_error.case_cong prod.case_cong option.case_cong if_cong)

lemma fit_exponential_smoothing_candidates [simp]:
  "fit_exponential_smoothing lib (s\<lparr>candidate_models := cs\<rparr>) b = fit_exponential_smoothing lib s b"
  by (simp add: fit_exponential_smoothing_def exog_of_def series_of_def error_metric_of_def
      cong: and_then_cong)

lemma fit_tbats_candidates [simp]:
  "fit_tbats lib (s\<lparr>candidate_models := cs\<rparr>) b b' = fit_tbats lib s b b'"
  by (simp add: fit_tbats_def exog_of_def series_of_def error_metric_of_def
      cong: and_then_cong)

lemma fit_auto_arima_name: "fit_auto_arima lib s b = Inr c \<Longrightarrow> cand_name c = ''auto_arima''"
  unfolding fit_auto_arima_def Let_def
  by (elim and_then_InrE) (auto split: prod.splits elim!: and_then_InrE)

lemma fit_exponential_smoothing_name:
  "fit_exponential_smoothing lib s b = Inr c \<Longrightarrow> cand_name c = ''exponential_smoothing''"
  unfolding fit_exponential_smoothing_def
  by (elim and_then_InrE) auto

lemma fit_tbats_name: "fit_tbats lib s b b' = Inr c \<Longrightarrow> cand_name c = ''tbats''"
  unfolding fit_tbats_def
  by (elim and_then_InrE) auto

lemma fit_ensemble_name: "fit_ensemble lib s = (Inr c, cs) \<Longrightarrow> cand_name c = ''ensemble''"
  unfolding fit_ensemble_def
  by (auto split: sum.splits elim!: and_then_InrE)

lemma fit_ensemble_list:
  "fit_ensemble lib s = (r, cs) \<Longrightarrow>
     map cand_name cs = map cand_name (candidate_models s) \<and>
     map score cs = map score (candidate_models s) \<and>
     map cand_model cs = map cand_model (candidate_models s)"
proof -
  assume a: "fit_ensemble lib s = (r, cs)"
  obtain xs where xs: "candidate_models s = xs" by simp
  show ?thesis
  proof (cases "ensemble_predictions lib (map test_predictions xs)")
    case (Inl e)
    with a xs show ?thesis by (simp add: fit_ensemble_def)
  next
    case (Inr p)
    with a xs show ?thesis
      by (cases xs; cases "tl xs") (auto simp: fit_ensemble_def)
  qed
qed

lemma stage:
  assumes "(if b then append_candidate s r else Inr s) = Inr s'"
  shows "\<exists>l. s' = s\<lparr>candidate_models := candidate_models s @ l\<rparr> \<and> map Inr l = (if b then [r] else [])"
  using assms by (cases b; cases r) (auto simp: append_candidate_def)


lemma prepared_fields [simp]:
  "model_names (prepared s0 d name exog) = model_names s0"
  "candidate_models (prepared s0 d name exog) = candidate_models s0"
  "error_metric (prepared s0 d name exog) = error_metric s0"
  "holdout_period (prepared s0 d name exog) = holdout_period s0"
  "data (prepared s0 d name exog) = Some d"
  "training_data (prepared s0 d name exog) = Some (iloc_to d (- holdout_period s0))"
  "testing_data (prepared s0 d name exog) = Some (iloc_from d (- holdout_period s0))"
  "series_column_name (prepared s0 d name exog) = Some name"
  by (simp_all add: prepared_def set_input_data_def split: exog_arg.splits)

lemma fit_InrD:
  assumes "fit lib s0 df name exog = Inr s'"
  shows "\<exists>d A E T pre best rest.
      check_datetime_index df = Inr d \<and>
      map Inr A = (if ''auto_arima'' \<in> set (model_names s0)
                   then [fit_auto_arima lib (prepared s0 d name exog) True] else []) \<and>
      map Inr E = (if ''exponential_smoothing'' \<in> set (model_names s0)
                   then [fit_exponential_smoothing lib (prepared s0 d name exog) True] else []) \<and>
      map Inr T = (if ''tbats'' \<in> set (model_names s0)
                   then [fit_tbats lib (prepared s0 d name exog) True True] else []) \<and>
      (if ''ensemble'' \<in> set (model_names s0)
       then \<exists>en cs. fit_ensemble lib ((prepared s0 d name exog)
                       \<lparr>candidate_models := candidate_models s0 @ A @ E @ T\<rparr>) = (Inr en, cs)
              \<and> pre = cs @ [en]
       else pre = candidate_models s0 @ A @ E @ T) \<and>
      py_sorted score pre = Inr (best # rest) \<and>
      s' = (prepared s0 d name exog)
             \<lparr>candidate_models := best # rest, best_model_error := score best,
              fit_model := cand_model best, fit_model_type := Some (cand_name best),
              is_fitted := True\<rparr>"
proof -
  obtain d where d: "check_datetime_index df = Inr d"
  proof (cases "check_datetime_index df")
    case (Inl e)
    have "fit lib s0 df name exog = Inl (e, s0)"
      unfolding fit_def Inl sum.case ..
    with assms show thesis by simp
  next
    case (Inr d)
    with that show thesis .
  qed
  define s2 where "s2 = prepared s0 d name exog"
  have s2: "(let s1 = set_input_data s0 d name;
         exog' = (case exog of ExogStr c \<Rightarrow> ExogList [] | _ \<Rightarrow> exog);
         s2 = (case exog' of
                 ExogList cs \<Rightarrow> s1\<lparr>using_exogenous := True, exogenous := Some cs\<rparr>
               | _ \<Rightarrow> s1) in f s2) = f s2" for f
    by (simp add: s2_def prepared_def split: exog_arg.splits)
  have names [simp]: "model_names s2 = model_names s0"
    by (simp add: s2_def)
  have "and_then (if ''auto_arima'' \<in> set (model_names s2)
                  then append_candidate s2 (fit_auto_arima lib s2 True) else Inr s2) (\<lambda>s3.
        and_then (if ''exponential_smoothing'' \<in> set (model_names s3)
                  then append_candidate s3 (fit_exponential_smoothing lib s3 True) else Inr s3) (\<lambda>s4.
        and_then (if ''tbats'' \<in> set (model_names s4)
                  then append_candidate s4 (fit_tbats lib s4 True True) else Inr s4) (\<lambda>s5.
        and_then (if ''ensemble'' \<in> set (model_names s5)
                  then (case fit_ensemble lib s5 of (r, cs) \<Rightarrow>
                          append_candidate (s5\<lparr>candidate_models := cs\<rparr>) r)
                  else Inr s5) (\<lambda>s6.
        (case py_sorted score (candidate_models s6) of
           Inl e \<Rightarrow> Inl (e, s6)
         | Inr [] \<Rightarrow> Inl (IndexError ''list index out of range'', s6\<lparr>candidate_models := []\<rparr>)
         | Inr (best # others) \<Rightarrow>
             Inr (s6\<lparr>candidate_models := best # others,
                     best_model_error := score best,
                     fit_model := cand_model best,
                     fit_model_type := Some (cand_name best),
                     is_fitted := True\<rparr>)))))) = Inr s'"
    using assms unfolding fit_def d sum.case s2 .
  then obtain s3 where
    s3: "(if ''auto_arima'' \<in> set (model_names s2)
          then append_candidate s2 (fit_auto_arima lib s2 True) else Inr s2) = Inr s3" and
    r3: "and_then (if ''exponential_smoothing'' \<in> set (model_names s3)
                  then append_candidate s3 (fit_exponential_smoothing lib s3 True) else Inr s3) (\<lambda>s4.
        and_then (if ''tbats'' \<in> set (model_names s4)
                  then append_candidate s4 (fit_tbats lib s4 True True) else Inr s4) (\<lambda>s5.
        and_then (if ''ensemble'' \<in> set (model_names s5)
                  then (case fit_ensemble lib s5 of (r, cs) \<Rightarrow>
                          append_candidate (s5\<lparr>candidate_models := cs\<rparr>) r)
                  else Inr s5) (\<lambda>s6.
        (case py_sorted score (candidate_models s6) of
           Inl e \<Rightarrow> Inl (e, s6)
         | Inr [] \<Rightarrow> Inl (IndexError ''list index out of range'', s6\<lparr>candidate_models := []\<rparr>)
         | Inr (best # others) \<Rightarrow>
             Inr (s6\<lparr>candidate_models := best # others,
                     best_model_error := score best,
                     fit_model := cand_model best,
                     fit_model_type := Some (cand_name best),
                     is_fitted := True\<rparr>))))) = Inr s'"
    by (rule and_then_InrE)
  from r3 obtain s4 where
    s4: "(if ''exponential_smoothing'' \<in> set (model_names s3)
          then append_candidate s3 (fit_exponential_smoothing lib s3 True) else Inr s3) = Inr s4" and
    r4: "and_then (if ''tbats'' \<in> set (model_names s4)
                  then append_candidate s4 (fit_tbats lib s4 True True) else Inr s4) (\<lambda>s5.
        and_then (if ''ensemble'' \<in> set (model_names s5)
                  then (case fit_ensemble lib s5 of (r, cs) \<Rightarrow>
                          append_candidate (s5\<lparr>candidate_models := cs\<rparr>) r)
                  else Inr s5) (\<lambda>s6.
        (case py_sorted score (candidate_models s6) of
           Inl e \<Rightarrow> Inl (e, s6)
         | Inr [] \<Rightarrow> Inl (IndexError ''list index out of range'', s6\<lparr>candidate_models := []\<rparr>)
         | Inr (best # others) \<Rightarrow>
             Inr (s6\<lparr>candidate_models := best # others,
                     best_model_error := score best,
                     fit_model := cand_model best,
                     fit_model_type := Some (cand_name best),
                     is_fitted := True\<rparr>)))) = Inr s'"
    by (rule and_then_InrE)
  from r4 obtain s5 where
    s5: "(if ''tbats'' \<in> set (model_names s4)
          then append_candidate s4 (fit_tbats lib s4 True True) else Inr s4) = Inr s5" and
    r5: "and_then (if ''ensemble'' \<in> set (model_names s5)
                  then (case fit_ensemble lib s5 of (r, cs) \<Rightarrow>
                          append_candidate (s5\<lparr>candidate_models := cs\<rparr>) r)
                  else Inr s5) (\<lambda>s6.
        (case py_sorted score (candidate_models s6) of
           Inl e \<Rightarrow> Inl (e, s6)
         | Inr [] \<Rightarrow> Inl (IndexError ''list index out of range'', s6\<lparr>candidate_models := []\<rparr>)
         | Inr (best # others) \<Rightarrow>
             Inr (s6\<lparr>candidate_models := best # others,
                     best_model_error := score best,
                     fit_model := cand_model best,
                     fit_model_type := Some (cand_name best),
                     is_fitted := True\<rparr>))) = Inr s'"
    by (rule and_then_InrE)
  from r5 obtain s6 where
    s6: "(if ''ensemble'' \<in> set (model_names s5)
          then (case fit_ensemble lib s5 of (r, cs) \<Rightarrow>
                  append_candidate (s5\<lparr>candidate_models := cs\<rparr>) r)
          else Inr s5) = Inr s6" and
    fin: "(case py_sorted score (candidate_models s6) of
           Inl e \<Rightarrow> Inl (e, s6)
         | Inr [] \<Rightarrow> Inl (IndexError ''list index out of range'', s6\<lparr>candidate_models := []\<rparr>)
         | Inr (best # others) \<Rightarrow>
             Inr (s6\<lparr>candidate_models := best # others,
                     best_model_error := score best,
                     fit_model := cand_model best,
                     fit_model_type := Some (cand_name best),
                     is_fitted := True\<rparr>)) = Inr s'"
    by (rule and_then_InrE)
  from stage [OF s3] obtain A where
    A: "s3 = s2\<lparr>candidate_models := candidate_models s2 @ A\<rparr>"
       "map Inr A = (if ''auto_arima'' \<in> set (model_names s0)
                     then [fit_auto_arima lib s2 True] else [])"
    by auto
  from stage [OF s4] obtain E where
    E: "s4 = s3\<lparr>candidate_models := candidate_models s3 @ E\<rparr>"
       "map Inr E = (if ''exponential_smoothing'' \<in> set (model_names s0)
                     then [fit_exponential_smoothing lib s2 True] else [])"
    by (auto simp: A(1))
  from stage [OF s5] obtain T where
    T: "s5 = s4\<lparr>candidate_models := candidate_models s4 @ T\<rparr>"
       "map Inr T = (if ''tbats'' \<in> set (model_names s0)
                     then [fit_tbats lib s2 True True] else [])"
    by (auto simp: A(1) E(1))
  have s5': "s5 = s2\<lparr>candidate_models := candidate_models s0 @ A @ E @ T\<rparr>"
    by (simp add: A(1) E(1) T(1) s2_def)
  obtain pre where
    pre: "s6 = s2\<lparr>candidate_models := pre\<rparr>"
      "if ''ensemble'' \<in> set (model_names s0)
       then \<exists>en cs. fit_ensemble lib (s2\<lparr>candidate_models := candidate_models s0 @ A @ E @ T\<rparr>)
                       = (Inr en, cs) \<and> pre = cs @ [en]
       else pre = candidate_models s0 @ A @ E @ T"
  proof (cases "''ensemble'' \<in> set (model_names s0)")
    case False
    with s6 have "s6 = s5" by (simp add: s5')
    with False that [of "candidate_models s0 @ A @ E @ T"] show thesis
      by (simp add: s5')
  next
    case True
    obtain r cs where rc: "fit_ensemble lib s5 = (r, cs)" by (cases "fit_ensemble lib s5")
    with True s6 have "append_candidate (s5\<lparr>candidate_models := cs\<rparr>) r = Inr s6"
      by (simp add: s5')
    then obtain en where "r = Inr en" "s6 = s5\<lparr>candidate_models := cs @ [en]\<rparr>"
      by (cases r) (auto simp: append_candidate_def)
    with True rc that [of "cs @ [en]"] show thesis
      by (auto simp: s5')
  qed
  obtain best rest where
    br: "py_sorted score pre = Inr (best # rest)"
      "s' = s6\<lparr>candidate_models := best # rest, best_model_error := score best,
                fit_model := cand_model best, fit_model_type := Some (cand_name best),
                is_fitted := True\<rparr>"
  proof (cases "py_sorted score (candidate_models s6)")
    case (Inl e)
    with fin show thesis by simp
  next
    case (Inr l)
    show thesis
    proof (cases l)
      case Nil
      with Inr fin show thesis by simp
    next
      case (Cons b r)
      with Inr fin that [of b r] show thesis
        by (simp add: pre(1))
    qed
  qed
  have eq: "s' = (prepared s0 d name exog)
             \<lparr>candidate_models := best # rest, best_model_error := score best,
              fit_model := cand_model best, fit_model_type := Some (cand_name best),
              is_fitted := True\<rparr>"
    unfolding br(2) pre(1) s2_def by simp
  show ?thesis
    using d A(2) E(2) T(2) pre(2) br(1) eq unfolding s2_def by blast
qed

section \<open>The scoring function\<close>

lemma positions_absent: "x \<notin> set ys \<Longrightarrow> positions x ys = []"
  by (induction ys) auto

lemma positions_member: "i \<in> set (positions x ys) \<Longrightarrow> i < length ys \<and> ys ! i = x"
  by (induction ys arbitrary: i) (auto split: if_splits)

lemma positions_present: "positions x ys = i # is \<Longrightarrow> x \<in> set ys"
  using positions_absent [of x ys] by auto

lemma get_column_table_of:
  assumes "positions c cols = [k]" and "k < length vals" and "length (vals ! k) = length ts"
  shows "get_column (table_of ts cols vals) c = Inr (zip ts (vals ! k))"
proof -
  have "map (\<lambda>(t, cells). (t, cells ! k))
          (map (\<lambda>m. (ts ! m, map (\<lambda>v. v ! m) vals)) [0 ..< length ts]) = zip ts (vals ! k)"
    using assms(2,3) by (intro nth_equalityI) simp_all
  then show ?thesis
    by (simp add: get_column_def table_of_def assms(1))
qed

lemma set_column_table_of:
  assumes "c \<notin> set cols" and "length v = length ts"
  shows "set_column (table_of ts cols vals) c v = table_of ts (cols @ [c]) (vals @ [v])"
proof -
  have "map2 (\<lambda>(t, cells) x. (t, cells @ [x]))
          (map (\<lambda>m. (ts ! m, map (\<lambda>v. v ! m) vals)) [0 ..< length ts]) v =
        map (\<lambda>m. (ts ! m, map (\<lambda>v. v ! m) (vals @ [v]))) [0 ..< length ts]"
    using assms(2) by (intro nth_equalityI) simp_all
  then show ?thesis
    using assms(1) by (simp add: set_column_def table_of_def)
qed

lemma rows_table_of: "length (rows (table_of ts cols vals)) = length ts"
  by (simp add: table_of_def)

lemma select_two_columns:
  assumes "get_column d prediction = Inr p" and "get_column d actuals = Inr a"
  shows "select_columns d [prediction, actuals] =
     Inr (table_of (index d) [prediction, actuals] [map snd p, map snd a])"
proof -
  from assms(1) obtain i where
    i: "positions prediction (columns d) = [i]" "p = map (\<lambda>(t, cells). (t, cells ! i)) (rows d)"
    by (auto simp: get_column_def split: list.splits)
  from assms(2) obtain j where
    j: "positions actuals (columns d) = [j]" "a = map (\<lambda>(t, cells). (t, cells ! j)) (rows d)"
    by (auto simp: get_column_def split: list.splits)
  have names: "columns d ! i = prediction" "columns d ! j = actuals"
    using positions_member [of i prediction "columns d"] positions_member [of j actuals "columns d"]
    by (simp_all add: i(1) j(1))
  have present: "prediction \<in> set (columns d)" "actuals \<in> set (columns d)"
    using positions_present [OF i(1)] positions_present [OF j(1)] by simp_all
  have "map (\<lambda>(t, cells). (t, map ((!) cells) [i, j])) (rows d) =
      map (\<lambda>m. (index d ! m, map (\<lambda>v. v ! m) [map snd p, map snd a])) [0 ..< length (index d)]"
    by (intro nth_equalityI) (simp_all add: index_def i(2) j(2) split_beta)
  then show ?thesis
    by (simp add: select_columns_def present i(1) j(1) names table_of_def)
qed

lemma shift_Fin:
  "shift (map Fin a) (int k) =
     map (\<lambda>i. if k \<le> i then Fin (a ! (i - k)) else NaN) [0 ..< length a]"
  unfolding shift_def by (rule map_cong) (auto simp: Let_def nat_diff_distrib')

lemma filter_from:
  assumes "\<forall>i < n. Q (g i) \<longleftrightarrow> k \<le> i"
  shows "filter Q (map g [0 ..< n]) = map g [k ..< n]"
  using assms
proof (induction n)
  case 0
  show ?case by simp
next
  case (Suc n)
  then have "filter Q (map g [0 ..< n]) = map g [k ..< n]" by simp
  moreover have "Q (g n) \<longleftrightarrow> k \<le> n" using Suc.prems by simp
  ultimately show ?case by (cases "k \<le> n") simp_all
qed

lemma isna_fl_abs [simp]: "isna (fl_abs x) = isna x"
  by (cases x) simp_all

lemma mase_columns:
  assumes p: "get_column d prediction = Inr p" and a: "get_column d actuals = Inr a"
    and names: "prediction \<noteq> actuals" "prediction \<notin> set working_columns"
      "actuals \<notin> set working_columns"
  shows "mase lib d prediction actuals step_size =
     (let av = map snd a; pv = map snd p;
          n = int (length av) - step_size;
          avg = np_div lib
                  (np_sum lib (filter (\<lambda>x. \<not> isna x)
                     (map2 (\<lambda>x y. fl_abs (np_sub lib x y)) av (shift av step_size))))
                  (Fin (real_of_int n))
      in Inr (np_mean lib
                (map (\<lambda>x. if n < 0 then fl_neg (np_div lib x avg) else np_div lib x avg)
                   (map2 (\<lambda>x y. fl_abs (np_sub lib x y)) av pv))))"
proof -
  define ts where "ts = index d"
  define av where "av = map snd a"
  define pv where "pv = map snd p"
  have len: "length av = length ts" "length pv = length ts"
    using p a
    by (auto simp: av_def pv_def ts_def index_def get_column_def split: list.splits)
  have w: "prediction \<noteq> ''shifted_actuals''" "prediction \<noteq> ''abs_shifted_error''"
      "prediction \<noteq> ''abs_prediction_error''" "prediction \<noteq> ''abs_scaled_error''"
      "actuals \<noteq> ''shifted_actuals''" "actuals \<noteq> ''abs_shifted_error''"
      "actuals \<noteq> ''abs_prediction_error''" "actuals \<noteq> ''abs_scaled_error''"
      "actuals \<noteq> prediction"
    using names by (auto simp: working_columns_def)
  have sel: "select_columns d [prediction, actuals] = Inr (table_of ts [prediction, actuals] [pv, av])"
    using select_two_columns [OF p a] by (simp add: ts_def av_def pv_def)
  define sh where "sh = shift av step_size"
  define e1 where "e1 = map2 (\<lambda>x y. fl_abs (np_sub lib x y)) av sh"
  define e2 where "e2 = map2 (\<lambda>x y. fl_abs (np_sub lib x y)) av pv"
  define n where "n = int (length ts) - step_size"
  define avg where
    "avg = np_div lib (np_sum lib (filter (\<lambda>x. \<not> isna x) e1)) (Fin (real_of_int n))"
  define sc where
    "sc = map (\<lambda>x. if n < 0 then fl_neg (np_div lib x avg) else np_div lib x avg) e2"
  have lens: "length sh = length ts" "length e1 = length ts" "length e2 = length ts"
      "length sc = length ts"
    by (simp_all add: sh_def e1_def e2_def sc_def shift_def len)
  have g0: "get_column (table_of ts [prediction, actuals] [pv, av]) actuals = Inr (zip ts av)"
    using get_column_table_of [of actuals "[prediction, actuals]" 1 "[pv, av]" ts] w len by simp
  have s1: "set_column (table_of ts [prediction, actuals] [pv, av]) ''shifted_actuals'' sh =
      table_of ts [prediction, actuals, ''shifted_actuals''] [pv, av, sh]"
    using set_column_table_of [of "''shifted_actuals''" "[prediction, actuals]" sh ts "[pv, av]"]
      w lens by simp
  have g1: "get_column (table_of ts [prediction, actuals, ''shifted_actuals''] [pv, av, sh]) actuals
        = Inr (zip ts av)"
      "get_column (table_of ts [prediction, actuals, ''shifted_actuals''] [pv, av, sh])
         ''shifted_actuals'' = Inr (zip ts sh)"
    using get_column_table_of [of actuals "[prediction, actuals, ''shifted_actuals'']" 1
        "[pv, av, sh]" ts]
      get_column_table_of [of "''shifted_actuals''" "[prediction, actuals, ''shifted_actuals'']" 2
        "[pv, av, sh]" ts] w len lens
    by simp_all
  have s2: "set_column (table_of ts [prediction, actuals, ''shifted_actuals''] [pv, av, sh])
        ''abs_shifted_error'' e1 =
      table_of ts [prediction, actuals, ''shifted_actuals'', ''abs_shifted_error''] [pv, av, sh, e1]"
    using set_column_table_of [of "''abs_shifted_error''"
        "[prediction, actuals, ''shifted_actuals'']" e1 ts "[pv, av, sh]"] w lens by simp
  have g2: "get_column (table_of ts [prediction, actuals, ''shifted_actuals'', ''abs_shifted_error'']
         [pv, av, sh, e1]) actuals = Inr (zip ts av)"
      "get_column (table_of ts [prediction, actuals, ''shifted_actuals'', ''abs_shifted_error'']
         [pv, av, sh, e1]) prediction = Inr (zip ts pv)"
    using get_column_table_of [of actuals
        "[prediction, actuals, ''shifted_actuals'', ''abs_shifted_error'']" 1 "[pv, av, sh, e1]" ts]
      get_column_table_of [of prediction
        "[prediction, actuals, ''shifted_actuals'', ''abs_shifted_error'']" 0 "[pv, av, sh, e1]" ts]
      w len lens
    by simp_all
  have s3: "set_column (table_of ts [prediction, actuals, ''shifted_actuals'', ''abs_shifted_error'']
         [pv, av, sh, e1]) ''abs_prediction_error'' e2 =
      table_of ts [prediction, actuals, ''shifted_actuals'', ''abs_shifted_error'',
         ''abs_prediction_error''] [pv, av, sh, e1, e2]"
    using set_column_table_of [of "''abs_prediction_error''"
        "[prediction, actuals, ''shifted_actuals'', ''abs_shifted_error'']" e2 ts "[pv, av, sh, e1]"]
      w lens by simp
  have g3: "get_column (table_of ts [prediction, actuals, ''shifted_actuals'', ''abs_shifted_error'',
         ''abs_prediction_error''] [pv, av, sh, e1, e2]) ''abs_shifted_error'' = Inr (zip ts e1)"
      "get_column (table_of ts [prediction, actuals, ''shifted_actuals'', ''abs_shifted_error'',
         ''abs_prediction_error''] [pv, av, sh, e1, e2]) ''abs_prediction_error'' = Inr (zip ts e2)"
    using get_column_table_of [of "''abs_shifted_error''"
        "[prediction, actuals, ''shifted_actuals'', ''abs_shifted_error'', ''abs_prediction_error'']"
        3 "[pv, av, sh, e1, e2]" ts]
      get_column_table_of [of "''abs_prediction_error''"
        "[prediction, actuals, ''shifted_actuals'', ''abs_shifted_error'', ''abs_prediction_error'']"
        4 "[pv, av, sh, e1, e2]" ts]
      w len lens
    by simp_all
  have s4: "set_column (table_of ts [prediction, actuals, ''shifted_actuals'', ''abs_shifted_error'',
         ''abs_prediction_error''] [pv, av, sh, e1, e2]) ''abs_scaled_error'' sc =
      table_of ts [prediction, actuals, ''shifted_actuals'', ''abs_shifted_error'',
         ''abs_prediction_error'', ''abs_scaled_error''] [pv, av, sh, e1, e2, sc]"
    using set_column_table_of [of "''abs_scaled_error''"
        "[prediction, actuals, ''shifted_actuals'', ''abs_shifted_error'', ''abs_prediction_error'']"
        sc ts "[pv, av, sh, e1, e2]"]
      w lens by simp
  have g4: "get_column (table_of ts [prediction, actuals, ''shifted_actuals'', ''abs_shifted_error'',
         ''abs_prediction_error'', ''abs_scaled_error''] [pv, av, sh, e1, e2, sc]) ''abs_scaled_error''
        = Inr (zip ts sc)"
    using get_column_table_of [of "''abs_scaled_error''"
        "[prediction, actuals, ''shifted_actuals'', ''abs_shifted_error'', ''abs_prediction_error'',
          ''abs_scaled_error'']" 5 "[pv, av, sh, e1, e2, sc]" ts]
      w len lens
    by simp
  have z: "map snd (zip ts av) = av" "map snd (zip ts pv) = pv" "map snd (zip ts sh) = sh"
      "map snd (zip ts e1) = e1" "map snd (zip ts e2) = e2" "map snd (zip ts sc) = sc"
    using len lens by simp_all
  have main: "mase lib d prediction actuals step_size = Inr (np_mean lib sc)"
    unfolding mase_def sel and_then_Inr g0 Let_def z sh_def [symmetric] s1 g1 e1_def [symmetric]
      s2 g2 e2_def [symmetric] s3 g3 rows_table_of n_def [symmetric] avg_def [symmetric]
      sc_def [symmetric] s4 g4 ..
  show ?thesis
    unfolding Let_def av_def [symmetric] pv_def [symmetric] len(1) sh_def [symmetric]
      e1_def [symmetric] e2_def [symmetric] n_def [symmetric] avg_def [symmetric]
      sc_def [symmetric]
    by (fact main)
qed

text \<open>
  C8. For a table of \<open>N\<close> rows whose columns of actual and of predicted values are two
  columns without missing values, and a step \<open>k < N\<close>, \<open>mase\<close> returns the mean, as
  pandas takes it, over the scaled errors \<open>|actual[i] - predicted[i]| / scaleFactor\<close>
  of all \<open>N\<close> rows, with \<open>scaleFactor\<close> the sum of the \<open>N - k\<close> lagged errors
  \<open>|actual[i] - actual[i-k]|\<close>, \<open>i \<ge> k\<close>, divided by \<open>N - k\<close>: the first \<open>k\<close>
  rows count in the mean and not in the scale. Differences, quotients, the sum and the
  mean are those of the libraries, of which the statement uses only that a difference
  with a missing value is missing and a difference of two numbers is not. The two
  columns are not one of the columns that \<open>mase\<close> adds to its copy of the table.
\<close>

theorem mase_formula:
  assumes "get_column d prediction = Inr p" and "map snd p = map Fin predicted"
    and "get_column d actuals = Inr a" and "map snd a = map Fin actual"
    and "prediction \<noteq> actuals" and "prediction \<notin> set working_columns"
    and "actuals \<notin> set working_columns"
    and "k < length actual"
    and "\<forall>x. isna (np_sub lib x NaN)" and "\<forall>x y. \<not> isna (np_sub lib (Fin x) (Fin y))"
  shows "mase lib d prediction actuals (int k) =
     Inr (np_mean lib (map (scaledError lib actual predicted k) [0 ..< length actual]))"
proof -
  let ?n = "length actual"
  have "length (map snd p) = length (map snd a)"
    using assms(1,3) by (auto simp: get_column_def split: list.splits)
  then have len: "length predicted = ?n"
    unfolding assms(2,4) by simp
  have n: "int ?n - int k = int (?n - k)" "\<not> int (?n - k) < 0"
    using assms(8) by simp_all
  have e1: "map2 (\<lambda>x y. fl_abs (np_sub lib x y)) (map Fin actual) (shift (map Fin actual) (int k)) =
      map (\<lambda>i. fl_abs (np_sub lib (Fin (actual ! i))
                  (if k \<le> i then Fin (actual ! (i - k)) else NaN))) [0 ..< ?n]"
    by (rule nth_equalityI) (simp_all add: shift_Fin)
  have "filter (\<lambda>x. \<not> isna x)
        (map (\<lambda>i. fl_abs (np_sub lib (Fin (actual ! i))
                  (if k \<le> i then Fin (actual ! (i - k)) else NaN))) [0 ..< ?n]) =
      map (\<lambda>i. fl_abs (np_sub lib (Fin (actual ! i))
                  (if k \<le> i then Fin (actual ! (i - k)) else NaN))) [k ..< ?n]"
    by (rule filter_from) (simp add: assms(9,10))
  also have "\<dots> = map (\<lambda>i. fl_abs (np_sub lib (Fin (actual ! i)) (Fin (actual ! (i - k)))))
      [k ..< ?n]"
    by (rule map_cong) simp_all
  finally have tot: "filter (\<lambda>x. \<not> isna x)
        (map2 (\<lambda>x y. fl_abs (np_sub lib x y)) (map Fin actual) (shift (map Fin actual) (int k))) =
      map (\<lambda>i. fl_abs (np_sub lib (Fin (actual ! i)) (Fin (actual ! (i - k))))) [k ..< ?n]"
    unfolding e1 .
  have e2: "map2 (\<lambda>x y. fl_abs (np_sub lib x y)) (map Fin actual) (map Fin predicted) =
      map (\<lambda>i. fl_abs (np_sub lib (Fin (actual ! i)) (Fin (predicted ! i)))) [0 ..< ?n]"
    using len by (intro nth_equalityI) simp_all
  show ?thesis
    unfolding mase_columns [OF assms(1,3,5,6,7)] Let_def assms(2,4) length_map n(1) tot e2
    using n(2) by (simp add: scaledError_def [abs_def] scaleFactor_def o_def)
qed

theorem mase_formula_witness:
  "mase (flat_lib 3 5 6) \<lparr>columns = [''actuals'', ''p''],
         rows = [(Datetime 2020 1 1 0, [Fin 1, Fin 1]), (Datetime 2020 2 1 0, [Fin 3, Fin 2]),
                 (Datetime 2020 3 1 0, [Fin 4, Fin 5])]\<rparr> ''p'' ''actuals'' 1 = Inr (Fin (4 / 9))"
proof -
  have n: "\<forall>x. isna (np_sub (flat_lib 3 5 6) x NaN)"
  proof
    fix x show "isna (np_sub (flat_lib 3 5 6) x NaN)"
      by (cases x) (simp_all add: flat_lib_def fl_sub_def)
  qed
  have f: "\<forall>x y. \<not> isna (np_sub (flat_lib 3 5 6) (Fin x) (Fin y))"
    by (simp add: flat_lib_def fl_sub_def)
  have m: "np_mean (flat_lib 3 5 6) (map (scaledError (flat_lib 3 5 6) [1, 3, 4] [1, 2, 5] 1)
      [0 ..< length [1, 3, 4 :: real]]) = Fin (4 / 9)"
    by (simp add: scaledError_def scaleFactor_def flat_lib_def fl_sub_def fl_sum_def
        mean_skipna_def upt_rec)
  show ?thesis
    using mase_formula [of
      "\<lparr>columns = [''actuals'', ''p''],
         rows = [(Datetime 2020 1 1 0, [Fin 1, Fin 1]), (Datetime 2020 2 1 0, [Fin 3, Fin 2]),
                 (Datetime 2020 3 1 0, [Fin 4, Fin 5])]\<rparr>" "''p''"
      "[(Datetime 2020 1 1 0, Fin 1), (Datetime 2020 2 1 0, Fin 2), (Datetime 2020 3 1 0, Fin 5)]"
      "[1, 2, 5]" "''actuals''"
      "[(Datetime 2020 1 1 0, Fin 1), (Datetime 2020 2 1 0, Fin 3), (Datetime 2020 3 1 0, Fin 4)]"
      "[1, 3, 4]" 1 "flat_lib 3 5 6", OF _ _ _ _ _ _ _ _ n f]
    unfolding m by (simp add: get_column_def working_columns_def)
qed

section \<open>Construction\<close>

lemma raises_init: "raises (init names metric period holdout verb) = raises (check_models names)"
  by (simp add: init_def and_then_def raises_def split: sum.splits)

lemma raises_check_models:
  "raises (check_models names) \<longleftrightarrow>
     names = [] \<or> (\<exists>m \<in> set names. m \<notin> set valid_models)
     \<or> (''ensemble'' \<in> set names \<and> length names \<le> 2)"
  by (auto simp: check_models_def raises_def filter_empty_conv)

lemma filter_absent: "x \<notin> set names \<Longrightarrow> filter (\<lambda>m. m \<noteq> x) names = names"
  by (induction names) auto

lemma others_length:
  "distinct names \<Longrightarrow> x \<in> set names \<Longrightarrow>
     length (filter (\<lambda>m. m \<noteq> x) names) + 1 = length names"
  by (induction names) (auto simp: filter_absent)

text \<open>
  C6, as amended. For a list of model names without repetition, construction raises
  exactly when the list is empty, or holds a name outside the four valid ones, or holds
  \<open>ensemble\<close> with fewer than two other models. The error metric plays no part: it is
  stored and never checked.
\<close>

theorem init_raises_iff:
  assumes "distinct names"
  shows "raises (init names metric period holdout verb) \<longleftrightarrow>
     names = [] \<or> (\<exists>m \<in> set names. m \<notin> set valid_models)
     \<or> (''ensemble'' \<in> set names \<and> length (filter (\<lambda>m. m \<noteq> ''ensemble'') names) < 2)"
proof -
  have "''ensemble'' \<in> set names \<Longrightarrow>
      length names \<le> 2 \<longleftrightarrow> length (filter (\<lambda>m. m \<noteq> ''ensemble'') names) < 2"
    using others_length [OF assms, of "''ensemble''"] by linarith
  then show ?thesis
    unfolding raises_init raises_check_models by blast
qed

theorem init_raises_iff_witness:
  "distinct [''auto_arima'', ''tbats'', ''ensemble'']
   \<and> \<not> raises (init [''auto_arima'', ''tbats'', ''ensemble''] ''mase'' None 4 False)
   \<and> raises (init [''auto_arima'', ''ensemble''] ''mase'' None 4 False)"
  using init_raises_iff [of "[''auto_arima'', ''tbats'', ''ensemble'']" "''mase''" None 4 False]
    init_raises_iff [of "[''auto_arima'', ''ensemble'']" "''mase''" None 4 False]
  by (simp add: valid_models_def)

text \<open>
  C6, as stated, asks for an error on an unsupported metric too. The metric \<open>abc\<close> is
  not implemented, and the construction succeeds.
\<close>

theorem init_metric_counterexample:
  "\<not> supported_metric ''abc'' \<and> \<not> raises (init [''auto_arima''] ''abc'' None 4 False)"
  by (simp add: supported_metric_def raises_def init_def and_then_def check_models_def valid_models_def)

section \<open>The index check of fit\<close>

text \<open>
  C5, as amended. \<open>fit\<close> raises its type error exactly on a dataframe whose index is not
  a datetime index, and it does so first: the object is as it was, no table set and no
  model fitted. Whether the timestamps of a datetime index increase is not looked at.
\<close>

theorem fit_index_check:
  "(raises (check_datetime_index df) \<longleftrightarrow> (\<forall>f. df \<noteq> DatetimeFrame f)) \<and>
   ((\<forall>f. df \<noteq> DatetimeFrame f) \<longrightarrow>
      fit lib s df name exog =
        Inl (TypeError ''The index of your dataframe must be a series of datetimes'', s))"
  by (cases df) (simp_all add: raises_def fit_def)

theorem fit_index_check_witness:
  "raises (check_datetime_index (OtherFrame [''y''] [(0, [Fin 1]), (1, [Fin 2])])) \<and>
   fit (flat_lib 3 5 6) (fresh [''tbats''] ''mase'') (OtherFrame [''y''] [(0, [Fin 1]), (1, [Fin 2])])
     ''y'' ExogNone =
   Inl (TypeError ''The index of your dataframe must be a series of datetimes'',
        fresh [''tbats''] ''mase'') \<and>
   \<not> raises (check_datetime_index (DatetimeFrame four_months))"
  using fit_index_check [of "OtherFrame [''y''] [(0, [Fin 1]), (1, [Fin 2])]"
      "flat_lib 3 5 6" "fresh [''tbats''] ''mase''" "''y''" ExogNone]
    fit_index_check [of "DatetimeFrame four_months"]
  by simp

text \<open>
  C5, as stated, has \<open>fit\<close> raise a type error on a datetime index that is not
  chronological. The four months with the first two exchanged are accepted, and the fit
  goes through.
\<close>

theorem fit_unordered_index_counterexample:
  "\<not> strictly_increasing (index shuffled_months) \<and>
   \<not> raises (check_datetime_index (DatetimeFrame shuffled_months)) \<and>
   (case fit (flat_lib 3 5 6) (fresh [''tbats''] ''mase'') (DatetimeFrame shuffled_months)
           ''y'' ExogNone of
      Inl x \<Rightarrow> False
    | Inr s \<Rightarrow> is_fitted s)"
proof -
  have "\<not> strictly_increasing (index shuffled_months)"
    by (simp add: strictly_increasing_def index_def shuffled_months_def dt_lt_def)
  moreover have "\<not> raises (check_datetime_index (DatetimeFrame shuffled_months))"
    by (simp add: raises_def)
  moreover have "case fit (flat_lib 3 5 6) (fresh [''tbats''] ''mase'')
      (DatetimeFrame shuffled_months) ''y'' ExogNone of Inl x \<Rightarrow> False | Inr s \<Rightarrow> is_fitted s"
    by code_simp
  ultimately show ?thesis by simp
qed

section \<open>The checks of predict\<close>

lemma last_label_Cons: "last_label (t # ts) = Inr (last (t # ts))"
  by (simp add: last_label_def)

lemma predict_checks_raises:
  assumes "data s = Some d" and "rows d = r # rs"
  shows "raises (predict_checks s start_date end_date exog) \<longleftrightarrow>
     \<not> is_fitted s \<or> dt_lt end_date start_date
     \<or> dt_lt start_date (fst r)
     \<or> dt_lt (plus_one_month (fst (last (r # rs)))) start_date
     \<or> (using_exogenous s \<and> dt_lt (fst (last (r # rs))) end_date \<and> exog = None)"
proof -
  have idx: "data_index s = Inr (fst r # map fst rs)"
    using assms by (simp add: data_index_def index_def)
  have l: "last (fst r # map fst rs) = fst (last (r # rs))"
    using last_map [of "r # rs" fst] by simp
  show ?thesis
    unfolding predict_checks_def idx and_then_Inr last_label_Cons l
    by (auto simp: raises_def first_label_def)
qed

text \<open>
  The flag \<open>is_fitted\<close> records a successful fit: a new object does not have it, a fit
  that returns sets it, and a fit that raises leaves it as it was.
\<close>

lemma init_not_fitted: "init names metric period holdout verb = Inr s \<Longrightarrow> \<not> is_fitted s"
  by (auto simp: init_def elim!: and_then_InrE)

lemma and_then_InlE:
  assumes "and_then m f = Inl x"
  obtains "m = Inl x" | y where "m = Inr y" and "f y = Inl x"
  using assms by (cases m) simp_all

lemma stage_Inl:
  "(if b then append_candidate s r else Inr s) = Inl (e, s') \<Longrightarrow> s' = s"
  by (cases r) (auto simp: append_candidate_def split: if_splits)

lemma stage_fitted:
  "(if b then append_candidate s r else Inr s) = Inr s' \<Longrightarrow> is_fitted s' = is_fitted s"
  using stage [of b s r s'] by auto

lemma ensemble_stage_fitted:
  assumes "(if b then (case fit_ensemble lib s of (r, cs) \<Rightarrow>
              append_candidate (s\<lparr>candidate_models := cs\<rparr>) r) else Inr s) = x"
  shows "(\<forall>e s'. x = Inl (e, s') \<longrightarrow> is_fitted s' = is_fitted s) \<and>
     (\<forall>s'. x = Inr s' \<longrightarrow> is_fitted s' = is_fitted s)"
proof (cases b)
  case False
  with assms show ?thesis by auto
next
  case True
  obtain r cs where "fit_ensemble lib s = (r, cs)" by (cases "fit_ensemble lib s")
  with True assms show ?thesis
    by (cases r) (auto simp: append_candidate_def)
qed

lemma fit_sets_is_fitted:
  "(fit lib s0 df name exog = Inr s' \<longrightarrow> is_fitted s') \<and>
   (fit lib s0 df name exog = Inl (e, s') \<longrightarrow> is_fitted s' = is_fitted s0)"
proof (intro conjI impI)
  assume "fit lib s0 df name exog = Inr s'"
  from fit_InrD [OF this] show "is_fitted s'" by auto
next
  assume a: "fit lib s0 df name exog = Inl (e, s')"
  show "is_fitted s' = is_fitted s0"
  proof (cases "check_datetime_index df")
    case (Inl e')
    have "fit lib s0 df name exog = Inl (e', s0)"
      unfolding fit_def Inl sum.case ..
    with a show ?thesis by simp
  next
    case (Inr d)
    define s2 where "s2 = prepared s0 d name exog"
    have s2: "(let s1 = set_input_data s0 d name;
           exog' = (case exog of ExogStr c \<Rightarrow> ExogList [] | _ \<Rightarrow> exog);
           s2 = (case exog' of
                   ExogList cs \<Rightarrow> s1\<lparr>using_exogenous := True, exogenous := Some cs\<rparr>
                 | _ \<Rightarrow> s1) in f s2) = f s2" for f :: "autots \<Rightarrow> py_error \<times> autots + autots"
      by (simp add: s2_def prepared_def split: exog_arg.splits)
    have f2: "is_fitted s2 = is_fitted s0"
      by (simp add: s2_def prepared_def set_input_data_def split: exog_arg.splits)
    have fin: "is_fitted s' = is_fitted s6"
      if "(case py_sorted score (candidate_models s6) of
           Inl e \<Rightarrow> Inl (e, s6)
         | Inr [] \<Rightarrow> Inl (IndexError ''list index out of range'', s6\<lparr>candidate_models := []\<rparr>)
         | Inr (best # others) \<Rightarrow>
             Inr (s6\<lparr>candidate_models := best # others,
                     best_model_error := score best,
                     fit_model := cand_model best,
                     fit_model_type := Some (cand_name best),
                     is_fitted := True\<rparr>)) = Inl (e, s')" for s6
      using that by (auto split: sum.splits list.splits)
    from a show ?thesis
      unfolding fit_def Inr sum.case s2
      apply (elim and_then_InlE)
          apply (drule stage_Inl, simp add: f2)
         apply (drule stage_fitted, drule stage_Inl, simp add: f2)
        apply (drule stage_fitted, drule stage_fitted, drule stage_Inl, simp add: f2)
       apply (drule stage_fitted, drule stage_fitted, drule stage_fitted)
       apply (drule ensemble_stage_fitted, simp add: f2)
      apply (drule stage_fitted, drule stage_fitted, drule stage_fitted)
      apply (drule ensemble_stage_fitted, drule fin, simp add: f2)
      done
  qed
qed

text \<open>
  C4. \<open>predict\<close> raises, returning nothing and leaving the object as it was, when it is
  called on an object that is not fitted; and on a fitted object with data, its checks
  raise exactly when the range is inverted, the start is before the first observed
  date, the start is more than one month past the last observed date, or exogenous
  regressors were declared, the end is past the last observed date and no exogenous
  values are given. In no other case does a check raise. Both dates are datetimes by
  their type, which leaves the type test of the source without a case.
\<close>

theorem predict_validation:
  "(\<not> is_fitted s \<longrightarrow>
      predict lib s start_date end_date exog =
        (Inl (AttributeError ''Model must be fitted to be able to make predictions''), s)) \<and>
   (\<forall>e. predict_checks s start_date end_date exog = Inl e \<longrightarrow>
      predict lib s start_date end_date exog = (Inl e, s)) \<and>
   (\<forall>d r rs. data s = Some d \<and> rows d = r # rs \<longrightarrow>
      (raises (predict_checks s start_date end_date exog) \<longleftrightarrow>
         \<not> is_fitted s \<or> dt_lt end_date start_date
         \<or> dt_lt start_date (fst r)
         \<or> dt_lt (plus_one_month (fst (last (r # rs)))) start_date
         \<or> (using_exogenous s \<and> dt_lt (fst (last (r # rs))) end_date \<and> exog = None)))"
proof (intro conjI allI impI)
  assume "\<not> is_fitted s"
  then show "predict lib s start_date end_date exog =
      (Inl (AttributeError ''Model must be fitted to be able to make predictions''), s)"
    by (simp add: predict_def predict_checks_def)
next
  fix e
  assume "predict_checks s start_date end_date exog = Inl e"
  then show "predict lib s start_date end_date exog = (Inl e, s)"
    by (simp add: predict_def)
next
  fix d r rs
  assume "data s = Some d \<and> rows d = r # rs"
  then show "raises (predict_checks s start_date end_date exog) \<longleftrightarrow>
         \<not> is_fitted s \<or> dt_lt end_date start_date
         \<or> dt_lt start_date (fst r)
         \<or> dt_lt (plus_one_month (fst (last (r # rs)))) start_date
         \<or> (using_exogenous s \<and> dt_lt (fst (last (r # rs))) end_date \<and> exog = None)"
    using predict_checks_raises [of s d r rs] by blast
qed

theorem predict_validation_witness:
  "data observed = Some four_months \<and>
   rows four_months = (Datetime 2020 1 1 0, [Fin 1]) #
     [(Datetime 2020 2 1 0, [Fin 2]), (Datetime 2020 3 1 0, [Fin 4]), (Datetime 2020 4 1 0, [Fin 7])] \<and>
   raises (predict_checks observed (Datetime 2020 6 1 0) (Datetime 2020 7 1 0) (Some future_x)) \<and>
   raises (predict_checks observed (Datetime 2020 3 1 0) (Datetime 2020 5 1 0) None) \<and>
   \<not> raises (predict_checks observed (Datetime 2020 3 1 0) (Datetime 2020 5 1 0) (Some future_x)) \<and>
   predict (flat_lib 3 5 6) (fresh [''tbats''] ''mase'') (Datetime 2020 3 1 0) (Datetime 2020 4 1 0) None =
     (Inl (AttributeError ''Model must be fitted to be able to make predictions''),
      fresh [''tbats''] ''mase'')"
proof -
  have d: "data observed = Some four_months"
    by (simp add: observed_def)
  have r: "rows four_months = (Datetime 2020 1 1 0, [Fin 1]) #
     [(Datetime 2020 2 1 0, [Fin 2]), (Datetime 2020 3 1 0, [Fin 4]), (Datetime 2020 4 1 0, [Fin 7])]"
    by (simp add: four_months_def)
  have o: "is_fitted observed" "using_exogenous observed"
    by (simp_all add: observed_def)
  have p: "plus_one_month (Datetime 2020 4 1 0) = Datetime 2020 5 1 0"
    by (simp add: plus_one_month_def days_in_month_def)
  note v = conjunct2 [OF conjunct2 [OF predict_validation], rule_format, OF conjI [OF d r]]
  have 1: "raises (predict_checks observed (Datetime 2020 6 1 0) (Datetime 2020 7 1 0) (Some future_x))"
    unfolding v by (simp add: p dt_lt_def)
  have 2: "raises (predict_checks observed (Datetime 2020 3 1 0) (Datetime 2020 5 1 0) None)"
    unfolding v by (simp add: o dt_lt_def)
  have 3: "\<not> raises (predict_checks observed (Datetime 2020 3 1 0) (Datetime 2020 5 1 0) (Some future_x))"
    unfolding v by (simp add: o p dt_lt_def)
  have f: "\<not> is_fitted (fresh [''tbats''] ''mase'')"
    by (simp add: fresh_def)
  note 4 = conjunct1 [OF predict_validation, rule_format, OF f]
  show ?thesis
    using d r 1 2 3 4 by blast
qed

section \<open>A single exogenous column name\<close>

lemma check_datetime_index_Inr: "check_datetime_index df = Inr d \<Longrightarrow> df = DatetimeFrame d"
  by (cases df) simp_all

lemma raises_Inl: "raises r \<Longrightarrow> \<exists>e. r = Inl e"
  by (cases r) (simp_all add: raises_def)

text \<open>
  C10. When \<open>fit\<close> is given one column name as a string for \<open>exogenous\<close>, the name is
  replaced by the empty list: the table of regressors handed to the models has no
  column, whatever the name was. The object is nevertheless marked as using exogenous
  regressors, so \<open>predict\<close> without exogenous values raises for every request that ends
  after the last observed date, and does so with the demand for exogenous data when
  the range itself is acceptable.
\<close>

theorem exogenous_string_is_dropped:
  assumes "fit lib s0 df name (ExogStr c) = Inr s'"
  shows "using_exogenous s' \<and> exogenous s' = Some [] \<and>
     (\<forall>f. exog_of s' f = Inr \<lparr>columns = [], rows = map (\<lambda>(t, cells). (t, [])) (rows f)\<rparr>) \<and>
     (\<exists>d. df = DatetimeFrame d \<and> data s' = Some d \<and>
        (\<forall>r rs start_date end_date.
           rows d = r # rs \<and> dt_lt (fst (last (r # rs))) end_date \<longrightarrow>
             raises (fst (predict lib s' start_date end_date None)) \<and>
             (\<not> dt_lt end_date start_date \<and> \<not> dt_lt start_date (fst r)
              \<and> \<not> dt_lt (plus_one_month (fst (last (r # rs)))) start_date \<longrightarrow>
                fst (predict lib s' start_date end_date None) =
                  Inl (ValueError ''Exogenous regressors must be provided as a dataframe''))))"
proof -
  from fit_InrD [OF assms] obtain d best rest where
    d: "check_datetime_index df = Inr d" and
    s': "s' = (prepared s0 d name (ExogStr c))
             \<lparr>candidate_models := best # rest, best_model_error := score best,
              fit_model := cand_model best, fit_model_type := Some (cand_name best),
              is_fitted := True\<rparr>"
    by blast
  have u: "using_exogenous s'" "exogenous s' = Some []" "data s' = Some d" "is_fitted s'"
    by (simp_all add: s' prepared_def set_input_data_def)
  have x: "exog_of s' f = Inr \<lparr>columns = [], rows = map (\<lambda>(t, cells). (t, [])) (rows f)\<rparr>" for f
    by (simp add: exog_of_def u select_columns_def)
  have p: "raises (fst (predict lib s' start_date end_date None)) \<and>
             (\<not> dt_lt end_date start_date \<and> \<not> dt_lt start_date (fst r)
              \<and> \<not> dt_lt (plus_one_month (fst (last (r # rs)))) start_date \<longrightarrow>
                fst (predict lib s' start_date end_date None) =
                  Inl (ValueError ''Exogenous regressors must be provided as a dataframe''))"
    if "rows d = r # rs \<and> dt_lt (fst (last (r # rs))) end_date" for r rs start_date end_date
  proof
    have "raises (predict_checks s' start_date end_date None)"
      using predict_checks_raises [OF u(3), of r rs start_date end_date None] that u(1) by simp
    then obtain e where "predict_checks s' start_date end_date None = Inl e"
      using raises_Inl by blast
    then show "raises (fst (predict lib s' start_date end_date None))"
      by (simp add: predict_def raises_def)
  next
    have idx: "data_index s' = Inr (fst r # map fst rs)"
      using u(3) that by (simp add: data_index_def index_def)
    have l: "last (fst r # map fst rs) = fst (last (r # rs))"
      using last_map [of "r # rs" fst] by simp
    show "\<not> dt_lt end_date start_date \<and> \<not> dt_lt start_date (fst r)
        \<and> \<not> dt_lt (plus_one_month (fst (last (r # rs)))) start_date \<longrightarrow>
          fst (predict lib s' start_date end_date None) =
            Inl (ValueError ''Exogenous regressors must be provided as a dataframe'')"
      unfolding predict_def predict_checks_def idx and_then_Inr last_label_Cons l
      using that u(1,4) by (simp add: first_label_def)
  qed
  show ?thesis
    using u(1,2,3) x p check_datetime_index_Inr [OF d] by blast
qed

theorem exogenous_string_is_dropped_witness:
  "\<exists>s'. fit (flat_lib 3 5 6) (fresh [''tbats''] ''mase'') (DatetimeFrame four_months) ''y''
           (ExogStr ''x'') = Inr s' \<and>
     using_exogenous s' \<and> exogenous s' = Some [] \<and>
     fst (predict (flat_lib 3 5 6) s' (Datetime 2020 5 1 0) (Datetime 2020 6 1 0) None) =
       Inl (ValueError ''Exogenous regressors must be provided as a dataframe'')"
proof -
  have "case fit (flat_lib 3 5 6) (fresh [''tbats''] ''mase'') (DatetimeFrame four_months) ''y''
           (ExogStr ''x'') of Inl x \<Rightarrow> False | Inr s \<Rightarrow> True"
    by code_simp
  then obtain s' where f: "fit (flat_lib 3 5 6) (fresh [''tbats''] ''mase'')
      (DatetimeFrame four_months) ''y'' (ExogStr ''x'') = Inr s'"
    by (auto split: sum.splits)
  have r: "rows four_months = (Datetime 2020 1 1 0, [Fin 1]) #
     [(Datetime 2020 2 1 0, [Fin 2]), (Datetime 2020 3 1 0, [Fin 4]), (Datetime 2020 4 1 0, [Fin 7])]"
    by (simp add: four_months_def)
  have p: "plus_one_month (Datetime 2020 4 1 0) = Datetime 2020 5 1 0"
    by (simp add: plus_one_month_def days_in_month_def)
  from exogenous_string_is_dropped [OF f] have
    a: "using_exogenous s'" "exogenous s' = Some []" and
    b: "\<forall>r rs start_date end_date.
           rows four_months = r # rs \<and> dt_lt (fst (last (r # rs))) end_date \<longrightarrow>
             raises (fst (predict (flat_lib 3 5 6) s' start_date end_date None)) \<and>
             (\<not> dt_lt end_date start_date \<and> \<not> dt_lt start_date (fst r)
              \<and> \<not> dt_lt (plus_one_month (fst (last (r # rs)))) start_date \<longrightarrow>
                fst (predict (flat_lib 3 5 6) s' start_date end_date None) =
                  Inl (ValueError ''Exogenous regressors must be provided as a dataframe''))"
    by auto
  have "fst (predict (flat_lib 3 5 6) s' (Datetime 2020 5 1 0) (Datetime 2020 6 1 0) None) =
       Inl (ValueError ''Exogenous regressors must be provided as a dataframe'')"
    using b [rule_format, of "(Datetime 2020 1 1 0, [Fin 1])"
        "[(Datetime 2020 2 1 0, [Fin 2]), (Datetime 2020 3 1 0, [Fin 4]), (Datetime 2020 4 1 0, [Fin 7])]"
        "Datetime 2020 6 1 0" "Datetime 2020 5 1 0"]
    by (simp add: r p dt_lt_def)
  with f a show ?thesis by blast
qed

section \<open>Fitting twice\<close>

text \<open>
  C2 does not hold of the code. An object configured with the single model \<open>tbats\<close> is
  fitted on the four months and then on the four later months. After the second fit
  the candidate list holds two candidates for the one configured name; the first was
  built from the earlier data, its table is over the dates of 2020, and it is the one
  selected, with the error it had on the earlier data.
\<close>

theorem refit_keeps_old_candidates:
  "(case fit (flat_lib 3 5 6) (fresh [''tbats''] ''mase'') (DatetimeFrame four_months) ''y'' ExogNone of
      Inl x \<Rightarrow> False
    | Inr s1 \<Rightarrow>
       (case fit (flat_lib 3 5 6) s1 (DatetimeFrame later_months) ''y'' ExogNone of
          Inl x \<Rightarrow> False
        | Inr s2 \<Rightarrow>
            model_names s2 = [''tbats''] \<and>
            map (\<lambda>c. (cand_name c, score c, index (test_predictions c))) (candidate_models s2) =
              [(''tbats'', Some (Fin (1 / 2)), [Datetime 2020 3 1 0, Datetime 2020 4 1 0]),
               (''tbats'', Some (Fin (49 / 30)), [Datetime 2021 3 1 0, Datetime 2021 4 1 0])] \<and>
            best_model_error s2 = Some (Fin (1 / 2)) \<and>
            map_option index (data s2) =
              Some [Datetime 2021 1 1 0, Datetime 2021 2 1 0, Datetime 2021 3 1 0,
                    Datetime 2021 4 1 0]))"
  by code_simp

end
